theory Spec2Isabelle
  imports Main "HOL-Library.Word"
begin

section \<open>Content types and payload sources\<close>

text \<open>
  \<^verbatim>\<open>lib/models/content_types.ts\<close>: the enum's members are strings at run time, and an
  item's \<^verbatim>\<open>content_type\<close> is an arbitrary string, so a content type is a string here.
\<close>

type_synonym UuidString = string
type_synonym ContentType = string

definition ContentType_Any :: ContentType where
  "ContentType_Any = ''*''"

definition ContentType_Item :: ContentType where
  "ContentType_Item = ''SF|Item''"

definition ContentType_RootKey :: ContentType where
  "ContentType_RootKey = ''SN|RootKey|NoSync''"

definition ContentType_ItemsKey :: ContentType where
  "ContentType_ItemsKey = ''SN|ItemsKey''"

definition ContentType_EncryptedStorage :: ContentType where
  "ContentType_EncryptedStorage = ''SN|EncryptedStorage''"

definition ContentType_Note :: ContentType where
  "ContentType_Note = ''Note''"

definition ContentType_Tag :: ContentType where
  "ContentType_Tag = ''Tag''"

definition ContentType_SmartTag :: ContentType where
  "ContentType_SmartTag = ''SN|SmartTag''"

definition ContentType_Component :: ContentType where
  "ContentType_Component = ''SN|Component''"

text \<open>The enum \<^verbatim>\<open>PayloadSource\<close>, in the order of its declaration.\<close>

datatype PayloadSource =
    RemoteRetrieved | RemoteSaved | LocalSaved | LocalRetrieved | LocalDirtied
  | ComponentRetrieved | DesktopInstalled | RemoteActionRetrieved | FileImport
  | RemoteConflict | ImportConflict | SavedOrSaving | DecryptedTransient
  | ConflictUuid | ConflictData | LocalChanged | SessionHistory

section \<open>The item manager\<close>

text \<open>
  \<^verbatim>\<open>lib/services/item_manager.ts\<close>. An item is the typed view of a payload; the model keeps
  the properties the item manager reads. \<open>discardable\<close> is \<^verbatim>\<open>item.payload.discardable\<close>.
  The flags are read for their truthiness only, so they are booleans.
\<close>

record ContentReference =
  ref_uuid :: UuidString
  ref_content_type :: ContentType

record SNItem =
  uuid :: UuidString
  content_type :: ContentType
  references :: "ContentReference list"
  deleted :: bool
  dirty :: bool
  dummy :: bool
  errorDecrypting :: bool
  discardable :: bool

datatype ObservationType = Inserted | Changed

text \<open>
  An observer's filter has the type \<^verbatim>\<open>ContentType | ContentType[]\<close>: one content type or an
  array of them. The callback is a function of the host; it is identified by a number, and
  what it receives on one invocation is recorded as a \<open>Notification\<close>.
\<close>

datatype ObserverFilter = OneType ContentType | ManyTypes "ContentType list"

record Observer =
  contentType :: ObserverFilter
  callback :: nat

record Notification =
  n_callback :: nat
  n_items :: "SNItem list"
  n_source :: "PayloadSource option"
  n_sourceKey :: "string option"
  n_type :: ObservationType

record ItemManager =
  observers :: "Observer list"
  collection :: "SNItem list"
  referenceMap :: "UuidString \<rightharpoonup> UuidString list"
  inverseReferenceMap :: "UuidString \<rightharpoonup> UuidString list"

definition resetState :: "ItemManager \<Rightarrow> ItemManager" where
  "resetState m = m\<lparr>collection := [], referenceMap := Map.empty, inverseReferenceMap := Map.empty\<rparr>"

definition newItemManager :: ItemManager where
  "newItemManager =
     \<lparr>observers = [], collection = [], referenceMap = Map.empty, inverseReferenceMap = Map.empty\<rparr>"

definition addObserver :: "ObserverFilter \<Rightarrow> nat \<Rightarrow> ItemManager \<Rightarrow> ItemManager" where
  "addObserver ct cb m = m\<lparr>observers := observers m @ [\<lparr>contentType = ct, callback = cb\<rparr>]\<rparr>"

text \<open>
  JavaScript's \<^verbatim>\<open>===\<close> between an observer's filter and a content type (a string): two
  strings are compared by value, an array is never strictly equal to a string.
\<close>

fun strictEquals :: "ObserverFilter \<Rightarrow> ContentType \<Rightarrow> bool" where
  "strictEquals (OneType t) c = (t = c)"
| "strictEquals (ManyTypes ts) c = False"

definition relevantItems :: "Observer \<Rightarrow> SNItem list \<Rightarrow> SNItem list" where
  "relevantItems observer items =
     filter (\<lambda>item. strictEquals (contentType observer) ContentType_Any
                   \<or> strictEquals (contentType observer) (content_type item)) items"

definition notifyObservers ::
  "ItemManager \<Rightarrow> SNItem list \<Rightarrow> ObservationType \<Rightarrow> PayloadSource option \<Rightarrow> string option
     \<Rightarrow> Notification list" where
  "notifyObservers m items ty source sourceKey =
     map (\<lambda>observer. \<lparr>n_callback = callback observer, n_items = relevantItems observer items,
                       n_source = source, n_sourceKey = sourceKey, n_type = ty\<rparr>)
         (observers m)"

text \<open>\<^verbatim>\<open>get items()\<close> returns \<^verbatim>\<open>this.collection.all()\<close>.\<close>

definition items :: "ItemManager \<Rightarrow> SNItem list" where
  "items m = collection m"

definition getDirtyItems :: "ItemManager \<Rightarrow> SNItem list" where
  "getDirtyItems m =
     filter (\<lambda>item. dirty item \<and> \<not> dummy item \<and> (\<not> errorDecrypting item \<or> deleted item))
            (items m)"

text \<open>
  \<^verbatim>\<open>establishReferenceIndex\<close>: the loop runs once per reference of the item. Its body stores the
  whole list of referenced uuids under the item's uuid in the direct index, and pushes the
  item's uuid onto the inverse index of the referenced uuid.
\<close>

definition establishStep ::
  "SNItem \<Rightarrow> ContentReference \<Rightarrow> ItemManager \<Rightarrow> ItemManager" where
  "establishStep item reference m =
     (let index = (case inverseReferenceMap m (ref_uuid reference) of None \<Rightarrow> [] | Some xs \<Rightarrow> xs)
      in m\<lparr>referenceMap := (referenceMap m)(uuid item \<mapsto> map ref_uuid (references item)),
           inverseReferenceMap :=
             (inverseReferenceMap m)(ref_uuid reference \<mapsto> index @ [uuid item])\<rparr>)"

definition establishReferenceIndex :: "SNItem \<Rightarrow> ItemManager \<Rightarrow> ItemManager" where
  "establishReferenceIndex item m =
     foldl (\<lambda>acc reference. establishStep item reference acc) m (references item)"

text \<open>
  \<^verbatim>\<open>removeFromArray\<close> comes from \<^verbatim>\<open>@Lib/utils\<close>, which is not among the repository's files:
  it is the parameter \<open>rm\<close>, the array after the call. The call
  \<^verbatim>\<open>removeFromArray(map[k] || [], uuid)\<close> changes the array stored under \<open>k\<close> in place when
  there is one, and a temporary empty array otherwise.
\<close>

definition removeFromEntry ::
  "(UuidString list \<Rightarrow> UuidString \<Rightarrow> UuidString list) \<Rightarrow> UuidString \<Rightarrow> UuidString
     \<Rightarrow> (UuidString \<rightharpoonup> UuidString list) \<Rightarrow> (UuidString \<rightharpoonup> UuidString list)" where
  "removeFromEntry rm u k mp = (case mp k of None \<Rightarrow> mp | Some xs \<Rightarrow> mp(k \<mapsto> rm xs u))"

definition deestablishReferenceIndexForDeletedItem ::
  "(UuidString list \<Rightarrow> UuidString \<Rightarrow> UuidString list) \<Rightarrow> UuidString \<Rightarrow> ItemManager
     \<Rightarrow> ItemManager" where
  "deestablishReferenceIndexForDeletedItem rm u m =
     (let directReferences = (case referenceMap m u of None \<Rightarrow> [] | Some xs \<Rightarrow> xs);
          inv1 = foldl (\<lambda>acc d. removeFromEntry rm u d acc) (inverseReferenceMap m) directReferences;
          fwd1 = (referenceMap m)(u := None);
          inverseReferences = (case inv1 u of None \<Rightarrow> [] | Some xs \<Rightarrow> xs);
          fwd2 = foldl (\<lambda>acc r. removeFromEntry rm u r acc) fwd1 inverseReferences;
          inv2 = inv1(u := None)
      in m\<lparr>referenceMap := fwd2, inverseReferenceMap := inv2\<rparr>)"

text \<open>
  Modelled from the spec: \<^verbatim>\<open>MutableCollection\<close> (\<^verbatim>\<open>protocol/payloads/mutable_collection\<close>) is
  not among the repository's files. The spec calls the collection ``an ordered set of current
  items keyed by uuid'': \<open>set\<close> replaces the element with the same uuid or appends,
  \<open>delete\<close> removes the elements with the given uuids.
\<close>

fun collection_put :: "SNItem \<Rightarrow> SNItem list \<Rightarrow> SNItem list" where
  "collection_put x [] = [x]"
| "collection_put x (y # ys) = (if uuid y = uuid x then x # ys else y # collection_put x ys)"

definition collection_set :: "SNItem list \<Rightarrow> SNItem list \<Rightarrow> SNItem list" where
  "collection_set new coll = foldl (\<lambda>acc x. collection_put x acc) coll new"

definition collection_delete :: "SNItem list \<Rightarrow> SNItem list \<Rightarrow> SNItem list" where
  "collection_delete gone coll = filter (\<lambda>x. uuid x \<notin> set (map uuid gone)) coll"

text \<open>
  \<^verbatim>\<open>setPayloads\<close>. The payloads arrive already projected to items
  (\<^verbatim>\<open>CreateItemFromPayload\<close> is a constructor of the item model). The result is the new state
  and what the observers were called with.
\<close>

definition indexItem ::
  "(UuidString list \<Rightarrow> UuidString \<Rightarrow> UuidString list) \<Rightarrow> ItemManager \<Rightarrow> SNItem \<Rightarrow> ItemManager" where
  "indexItem rm m item =
     (if deleted item then deestablishReferenceIndexForDeletedItem rm (uuid item) m
      else establishReferenceIndex item m)"

definition setPayloads ::
  "(UuidString list \<Rightarrow> UuidString \<Rightarrow> UuidString list) \<Rightarrow> SNItem list \<Rightarrow> ObservationType
     \<Rightarrow> PayloadSource option \<Rightarrow> string option \<Rightarrow> ItemManager
     \<Rightarrow> ItemManager \<times> Notification list" where
  "setPayloads rm its ty source sourceKey m =
     (let m1 = foldl (indexItem rm) m its;
          m2 = m1\<lparr>collection := collection_set its (collection m1)\<rparr>
      in (m2, notifyObservers m2 its ty source sourceKey))"

definition onPayloadInsertion ::
  "(UuidString list \<Rightarrow> UuidString \<Rightarrow> UuidString list) \<Rightarrow> SNItem list
     \<Rightarrow> PayloadSource option \<Rightarrow> string option \<Rightarrow> ItemManager
     \<Rightarrow> ItemManager \<times> Notification list" where
  "onPayloadInsertion rm its source sourceKey m = setPayloads rm its Inserted source sourceKey m"

definition onPayloadChange ::
  "(UuidString list \<Rightarrow> UuidString \<Rightarrow> UuidString list) \<Rightarrow> SNItem list
     \<Rightarrow> PayloadSource option \<Rightarrow> string option \<Rightarrow> ItemManager
     \<Rightarrow> ItemManager \<times> Notification list" where
  "onPayloadChange rm its source sourceKey m =
     (let (m1, calls) = setPayloads rm its Changed source sourceKey m;
          gone = filter discardable its
      in (m1\<lparr>collection := collection_delete gone (collection m1)\<rparr>, calls))"

section \<open>Payloads\<close>

text \<open>
  The payload generator (\<^verbatim>\<open>protocol/payloads/generator\<close>). \<^verbatim>\<open>PayloadField\<close> names the keys of
  a raw payload; the type \<^verbatim>\<open>RawPayload\<close> of the generator lists them.
\<close>

datatype PayloadField =
    Uuid | ContentType | ItemsKeyId | EncItemKey | Content | CreatedAt | UpdatedAt | Deleted
  | Legacy003AuthHash | Legacy003AuthParams | Dirty | DirtiedDate | ErrorDecrypting
  | ErrorDecryptingChanged | WaitingForKey | Dummy | LastSyncBegan | LastSyncEnd

text \<open>
  The value of a field. A structured value (a content object, key params) is carried as its
  JSON text; a date as a number. A key that is absent (\<^verbatim>\<open>undefined\<close>) is \<open>None\<close> in the map.
\<close>

datatype jsval = JNull | JBool bool | JNum int | JStr string | JObj string

type_synonym RawPayload = "PayloadField \<rightharpoonup> jsval"

text \<open>
  A payload: its raw fields and the field set it was built with (\<^verbatim>\<open>payload.fields\<close>, here
  \<open>fieldList\<close>).
\<close>

record PurePayload =
  raw :: RawPayload
  fieldList :: "PayloadField list"

text \<open>JavaScript's truthiness, \<^verbatim>\<open>isString\<close> and \<^verbatim>\<open>isNullOrUndefined\<close> on a field's value.\<close>

fun truthy :: "jsval option \<Rightarrow> bool" where
  "truthy None = False"
| "truthy (Some JNull) = False"
| "truthy (Some (JBool b)) = b"
| "truthy (Some (JNum n)) = (n \<noteq> 0)"
| "truthy (Some (JStr s)) = (s \<noteq> [])"
| "truthy (Some (JObj ob)) = True"

fun isString :: "jsval option \<Rightarrow> bool" where
  "isString (Some (JStr s)) = True"
| "isString v = False"

fun isNullOrUndefined :: "jsval option \<Rightarrow> bool" where
  "isNullOrUndefined None = True"
| "isNullOrUndefined (Some JNull) = True"
| "isNullOrUndefined v = False"

definition MaxPayloadFields :: "PayloadField list" where
  "MaxPayloadFields =
     [Uuid, ContentType, ItemsKeyId, EncItemKey, Content, CreatedAt, UpdatedAt, Deleted,
      Legacy003AuthHash, Legacy003AuthParams, Dirty, DirtiedDate, ErrorDecrypting,
      ErrorDecryptingChanged, WaitingForKey, Dummy, LastSyncBegan, LastSyncEnd]"

definition EncryptionParametersFields :: "PayloadField list" where
  "EncryptionParametersFields =
     [Uuid, ItemsKeyId, EncItemKey, Content, Legacy003AuthHash, ErrorDecrypting,
      ErrorDecryptingChanged, WaitingForKey]"

definition FilePayloadFields :: "PayloadField list" where
  "FilePayloadFields =
     [Uuid, ContentType, ItemsKeyId, EncItemKey, Content, CreatedAt, UpdatedAt,
      Legacy003AuthHash]"

definition StoragePayloadFields :: "PayloadField list" where
  "StoragePayloadFields =
     [Uuid, ContentType, ItemsKeyId, EncItemKey, Content, CreatedAt, UpdatedAt, Deleted,
      Legacy003AuthHash, Legacy003AuthParams, Dirty, DirtiedDate, ErrorDecrypting,
      WaitingForKey]"

definition ServerPayloadFields :: "PayloadField list" where
  "ServerPayloadFields =
     [Uuid, ContentType, ItemsKeyId, EncItemKey, Content, CreatedAt, UpdatedAt, Deleted,
      Legacy003AuthHash]"

definition SessionHistoryPayloadFields :: "PayloadField list" where
  "SessionHistoryPayloadFields = [Uuid, ContentType, Content, UpdatedAt]"

definition ComponentRetrievedPayloadFields :: "PayloadField list" where
  "ComponentRetrievedPayloadFields = [Uuid, Content, CreatedAt]"

definition ServerSavedPayloadFields :: "PayloadField list" where
  "ServerSavedPayloadFields = [Uuid, ContentType, UpdatedAt, Deleted, Dirty, LastSyncEnd]"

text \<open>
  The encryption intents (\<^verbatim>\<open>@Protocol/intents\<close>); a null intent is \<open>None\<close> where the code
  tests for it.
\<close>

datatype EncryptionIntent =
    Sync | SyncDecrypted | LocalStorageEncrypted | LocalStorageDecrypted
  | LocalStoragePreferEncrypted | FileEncrypted | FilePreferEncrypted | FileDecrypted

text \<open>What the code throws. Every \<^verbatim>\<open>throw\<close> of the modelled functions has a constructor.\<close>

datatype ProtocolError =
    UseSourcedConstructor | UseIntentConstructor
  | NoPayloadFieldsForIntent | NoPayloadFieldsForSource
  | NullIntent | NoKeyForEncryption | AlreadyEncrypted | NoContentToEncrypt | NoUuidToEncrypt
  | NoEncryptionParameters | NoContentToDecrypt
  | UnhandledDecryptedCase | UnhandledEncryptedCase
  | NoOperatorForVersion string
  | RootKeyEncryptionRequired | NoKeyForLatestVersion
  | OperatorFailure string
  | KeyParamsMissing | SameRootKey | WrappingKeyMissing
  | NoRootKeyForKeychain | WrappedKeyToKeychain | NoRootKeyToWrap

text \<open>
  Modelled from the spec: \<^verbatim>\<open>pickByCopy\<close>, \<^verbatim>\<open>Copy\<close> and \<^verbatim>\<open>deepMerge\<close> come from \<^verbatim>\<open>@Lib/utils\<close>,
  which is not among the repository's files. By the spec a payload's field set ``picks which
  fields survive a copy'', and an override on a failed decryption sets the flags and leaves
  the content as it is: \<open>pickByCopy\<close> keeps the listed keys, \<open>deepMerge\<close> writes every key of
  the override into the target. Two structured values under one key are merged by \<open>mo\<close>, a
  parameter (the merge of two objects, on their JSON texts).
\<close>

definition pickByCopy :: "RawPayload \<Rightarrow> PayloadField list \<Rightarrow> RawPayload" where
  "pickByCopy object fs = (\<lambda>k. if k \<in> set fs then object k else None)"

definition deepMerge :: "(string \<Rightarrow> string \<Rightarrow> string) \<Rightarrow> RawPayload \<Rightarrow> RawPayload \<Rightarrow> RawPayload" where
  "deepMerge mo target source =
     (\<lambda>k. case source k of
             None \<Rightarrow> target k
           | Some (JObj b) \<Rightarrow>
               (case target k of Some (JObj a) \<Rightarrow> Some (JObj (mo a b)) | _ \<Rightarrow> Some (JObj b))
           | Some v \<Rightarrow> Some v)"

text \<open>
  \<^verbatim>\<open>CreatePayload\<close>. An override is an object by its type (\<^verbatim>\<open>PayloadOverride\<close>), so the test
  \<^verbatim>\<open>!isObject(override)\<close> never holds for an override that is given.
\<close>

definition CreatePayload ::
  "(string \<Rightarrow> string \<Rightarrow> string) \<Rightarrow> RawPayload \<Rightarrow> PayloadField list \<Rightarrow> RawPayload option
     \<Rightarrow> PurePayload" where
  "CreatePayload mo object fs override =
     (let rawPayload = pickByCopy object fs;
          merged = (case override of None \<Rightarrow> rawPayload | Some ov \<Rightarrow> deepMerge mo rawPayload ov)
      in \<lparr>raw = merged, fieldList = fs\<rparr>)"

definition payloadFieldsForIntent :: "EncryptionIntent \<Rightarrow> ProtocolError + PayloadField list" where
  "payloadFieldsForIntent intent =
     (if intent = FileEncrypted \<or> intent = FileDecrypted \<or> intent = FilePreferEncrypted
        then Inr FilePayloadFields
      else if intent = LocalStoragePreferEncrypted \<or> intent = LocalStorageDecrypted
              \<or> intent = LocalStorageEncrypted
        then Inr StoragePayloadFields
      else if intent = Sync \<or> intent = SyncDecrypted
        then Inr ServerPayloadFields
      else Inl NoPayloadFieldsForIntent)"

definition payloadFieldsForSource :: "PayloadSource \<Rightarrow> ProtocolError + PayloadField list" where
  "payloadFieldsForSource source =
     (if source = FileImport then Inr FilePayloadFields
      else if source = SessionHistory then Inr SessionHistoryPayloadFields
      else if source = ComponentRetrieved then Inr ComponentRetrievedPayloadFields
      else if source = LocalRetrieved \<or> source = LocalDirtied then Inr StoragePayloadFields
      else if source = RemoteRetrieved \<or> source = ConflictData \<or> source = ConflictUuid
        then Inr ServerPayloadFields
      else if source = LocalSaved \<or> source = RemoteSaved then Inr ServerSavedPayloadFields
      else Inl NoPayloadFieldsForSource)"

definition CreateMaxPayloadFromAnyObject ::
  "(string \<Rightarrow> string \<Rightarrow> string) \<Rightarrow> RawPayload \<Rightarrow> PayloadSource option
     \<Rightarrow> EncryptionIntent option \<Rightarrow> RawPayload option \<Rightarrow> ProtocolError + PurePayload" where
  "CreateMaxPayloadFromAnyObject mo object source intent override =
     (if source \<noteq> None then Inl UseSourcedConstructor
      else if intent \<noteq> None then Inl UseIntentConstructor
      else Inr (CreatePayload mo object MaxPayloadFields override))"

definition CreateIntentPayloadFromObject ::
  "(string \<Rightarrow> string \<Rightarrow> string) \<Rightarrow> RawPayload \<Rightarrow> EncryptionIntent \<Rightarrow> RawPayload option
     \<Rightarrow> ProtocolError + PurePayload" where
  "CreateIntentPayloadFromObject mo object intent override =
     (case payloadFieldsForIntent intent of
        Inl e \<Rightarrow> Inl e
      | Inr payloadFields \<Rightarrow> Inr (CreatePayload mo object payloadFields override))"

definition CreateSourcedPayloadFromObject ::
  "(string \<Rightarrow> string \<Rightarrow> string) \<Rightarrow> RawPayload \<Rightarrow> PayloadSource \<Rightarrow> RawPayload option
     \<Rightarrow> ProtocolError + PurePayload" where
  "CreateSourcedPayloadFromObject mo object source override =
     (case payloadFieldsForSource source of
        Inl e \<Rightarrow> Inl e
      | Inr payloadFields \<Rightarrow> Inr (CreatePayload mo object payloadFields override))"

definition CreateEncryptionParameters :: "(string \<Rightarrow> string \<Rightarrow> string) \<Rightarrow> RawPayload \<Rightarrow> PurePayload" where
  "CreateEncryptionParameters mo object = CreatePayload mo object EncryptionParametersFields None"

section \<open>The protocol service\<close>

text \<open>
  \<^verbatim>\<open>services/protocol_service\<close>: encryption and decryption of payloads, the key manager and
  the items-key manager. Protocol versions are three-character strings.
\<close>

datatype PayloadFormat = EncryptedString | DecryptedBareObject | DecryptedBase64String

definition V000Base64Decrypted :: string where "V000Base64Decrypted = ''000''"
definition V001 :: string where "V001 = ''001''"
definition V002 :: string where "V002 = ''002''"
definition V003 :: string where "V003 = ''003''"
definition V004 :: string where "V004 = ''004''"
definition VersionLength :: nat where "VersionLength = 3"

definition getLatestVersion :: string where
  "getLatestVersion = V004"

text \<open>
  Modelled from the spec: the getters \<^verbatim>\<open>format\<close> and \<^verbatim>\<open>version\<close> of \<^verbatim>\<open>PurePayload\<close>
  (\<^verbatim>\<open>protocol/payloads/pure_payload\<close>, not among the repository's files). By the spec content is
  ``either a structured map or a version-prefixed ciphertext string'', and the formats are
  the bare object, the string with version prefix \<open>000\<close>, and the encrypted string. The
  version of a string content is its prefix; \<open>version\<close> is read for string contents only.
\<close>

definition format :: "PurePayload \<Rightarrow> PayloadFormat" where
  "format p =
     (case raw p Content of
        Some (JStr s) \<Rightarrow>
          if take VersionLength s = V000Base64Decrypted then DecryptedBase64String
          else EncryptedString
      | _ \<Rightarrow> DecryptedBareObject)"

definition version :: "PurePayload \<Rightarrow> string" where
  "version p = (case raw p Content of Some (JStr s) \<Rightarrow> take VersionLength s | _ \<Rightarrow> [])"

text \<open>
  Keys. A root key is an object held by reference: \<open>rk_ref\<close> is its identity, which the test
  \<^verbatim>\<open>this.rootKey === key\<close> compares. \<open>rk_fields\<close> are its properties as a payload source,
  \<open>rk_persistable\<close> is \<^verbatim>\<open>getPersistableValue()\<close> as JSON text. An items key is an item of the
  collection; \<open>ik_isDefault\<close> is \<^verbatim>\<open>content.isDefault\<close>.
\<close>

record SNRootKey =
  rk_ref :: nat
  rk_version :: string
  rk_fields :: RawPayload
  rk_persistable :: string

record SNItemsKey =
  ik_uuid :: UuidString
  ik_version :: string
  ik_isDefault :: bool
  ik_updated_at :: "int option"
  ik_dirty :: bool
  ik_deleted :: bool

datatype AnyKey = RootKey SNRootKey | ItemsKey SNItemsKey

fun key_version :: "AnyKey \<Rightarrow> string" where
  "key_version (RootKey k) = rk_version k"
| "key_version (ItemsKey k) = ik_version k"

text \<open>
  Modelled from the spec: the getter \<^verbatim>\<open>neverSynced\<close> of an item (the item model is not among
  the repository's files): ``updated_at is epoch or null''. Dates are milliseconds since the
  epoch.
\<close>

definition neverSynced :: "SNItemsKey \<Rightarrow> bool" where
  "neverSynced k = (ik_updated_at k = None \<or> ik_updated_at k = Some 0)"

record SNRootKeyParams =
  kp_version :: string
  kp_portable :: string

datatype KeyMode = RootKeyNone | RootKeyOnly | RootKeyPlusWrapper | WrapperOnly

datatype StorageKey = RootKeyParams | WrappedRootKey | RootKeyWrapperKeyParams

datatype StoredValue = StoredKeyParams string | StoredPayload PurePayload

text \<open>
  The state of the service. \<open>allItemsKeys\<close> is \<^verbatim>\<open>modelManager.itemsKeys\<close>, \<open>keychainValue\<close> the
  device keychain, \<open>nonwrappedStorage\<close> the values stored with \<^verbatim>\<open>StorageValueModes.Nonwrapped\<close>,
  \<open>keyChangeNotifications\<close> counts the rounds of \<^verbatim>\<open>notifyObserversOfKeyChange\<close>.
\<close>

record ProtocolService =
  keyMode :: KeyMode
  rootKey :: "SNRootKey option"
  allItemsKeys :: "SNItemsKey list"
  keychainValue :: "string option"
  nonwrappedStorage :: "StorageKey \<rightharpoonup> StoredValue"
  keyChangeNotifications :: nat

text \<open>
  What the service is given from outside: the merge of two objects (see \<open>deepMerge\<close>), and
  the protocol operators. \<open>generateEncryptedParameters v payload format key\<close> is the call on
  the operator of version \<open>v\<close>; it throws, or returns parameters, or returns nothing.
  \<open>generateDecryptedParameters v parameters key\<close> throws or returns the decrypted parameters.
\<close>

record Host =
  mergeObjects :: "string \<Rightarrow> string \<Rightarrow> string"
  generateEncryptedParameters ::
    "string \<Rightarrow> PurePayload \<Rightarrow> PayloadFormat \<Rightarrow> AnyKey option \<Rightarrow> ProtocolError + RawPayload option"
  generateDecryptedParameters ::
    "string \<Rightarrow> PurePayload \<Rightarrow> AnyKey option \<Rightarrow> ProtocolError + RawPayload"

text \<open>
  \<^verbatim>\<open>operatorForVersion\<close> memoises \<^verbatim>\<open>createOperatorForVersion\<close>; the result is the version of the
  operator that serves the request.
\<close>

definition createOperatorForVersion :: "string \<Rightarrow> ProtocolError + string" where
  "createOperatorForVersion v =
     (if v = V001 then Inr V001
      else if v = V002 then Inr V002
      else if v = V003 then Inr V003
      else if v = V004 then Inr V004
      else if v = V000Base64Decrypted then Inr getLatestVersion
      else Inl (NoOperatorForVersion v))"

definition operatorForVersion :: "string \<Rightarrow> ProtocolError + string" where
  "operatorForVersion v = createOperatorForVersion v"

text \<open>
  Modelled from the spec: \<^verbatim>\<open>isDecryptedIntent\<close> and \<^verbatim>\<open>intentRequiresEncryption\<close> come from
  \<^verbatim>\<open>@Protocol/intents\<close>, not among the repository's files. The spec's intent table gives the
  intents that take no key and those for which a key is required.
\<close>

definition isDecryptedIntent :: "EncryptionIntent \<Rightarrow> bool" where
  "isDecryptedIntent intent =
     (intent = SyncDecrypted \<or> intent = LocalStorageDecrypted \<or> intent = FileDecrypted)"

definition intentRequiresEncryption :: "EncryptionIntent \<Rightarrow> bool" where
  "intentRequiresEncryption intent =
     (intent = Sync \<or> intent = LocalStorageEncrypted \<or> intent = FileEncrypted)"

definition payloadContentFormatForIntent ::
  "EncryptionIntent \<Rightarrow> AnyKey option \<Rightarrow> ProtocolError + PayloadFormat" where
  "payloadContentFormatForIntent intent key =
     (if key = None then
        (if intent = LocalStorageDecrypted \<or> intent = LocalStoragePreferEncrypted
            \<or> intent = FileDecrypted \<or> intent = FilePreferEncrypted
           then Inr DecryptedBareObject
         else if intent = SyncDecrypted then Inr DecryptedBase64String
         else Inl UnhandledDecryptedCase)
      else
        (if intent = Sync \<or> intent = FileEncrypted \<or> intent = FilePreferEncrypted
            \<or> intent = LocalStorageEncrypted \<or> intent = LocalStoragePreferEncrypted
           then Inr EncryptedString
         else Inl UnhandledEncryptedCase))"

definition contentTypeUsesRootKeyEncryption :: "jsval option \<Rightarrow> bool" where
  "contentTypeUsesRootKeyEncryption ct =
     (ct = Some (JStr ContentType_ItemsKey) \<or> ct = Some (JStr ContentType_EncryptedStorage))"

definition getRootKey :: "ProtocolService \<Rightarrow> SNRootKey option" where
  "getRootKey s = rootKey s"

definition itemsKeyForPayload :: "ProtocolService \<Rightarrow> PurePayload \<Rightarrow> SNItemsKey option" where
  "itemsKeyForPayload s payload =
     find (\<lambda>key. Some (JStr (ik_uuid key)) = raw payload ItemsKeyId) (allItemsKeys s)"

definition getDefaultItemsKey :: "ProtocolService \<Rightarrow> SNItemsKey option" where
  "getDefaultItemsKey s =
     (if length (allItemsKeys s) = 1 then Some (hd (allItemsKeys s))
      else find ik_isDefault (allItemsKeys s))"

definition defaultItemsKeyForItemVersion :: "ProtocolService \<Rightarrow> string \<Rightarrow> SNItemsKey option" where
  "defaultItemsKeyForItemVersion s v = find (\<lambda>key. ik_version key = v) (allItemsKeys s)"

definition keyToUseForEncryptionOfPayload ::
  "ProtocolService \<Rightarrow> PurePayload \<Rightarrow> EncryptionIntent option \<Rightarrow> ProtocolError + AnyKey option" where
  "keyToUseForEncryptionOfPayload s payload intent =
     (case intent of
        None \<Rightarrow> Inl NullIntent
      | Some i \<Rightarrow>
          if contentTypeUsesRootKeyEncryption (raw payload ContentType) then
            (case getRootKey s of
               None \<Rightarrow> if intentRequiresEncryption i then Inl RootKeyEncryptionRequired else Inr None
             | Some rk \<Rightarrow> Inr (Some (RootKey rk)))
          else Inr (map_option ItemsKey (getDefaultItemsKey s)))"

definition keyToUseForDecryptionOfPayload ::
  "ProtocolService \<Rightarrow> PurePayload \<Rightarrow> ProtocolError + AnyKey option" where
  "keyToUseForDecryptionOfPayload s payload =
     (if contentTypeUsesRootKeyEncryption (raw payload ContentType)
        then Inr (map_option RootKey (getRootKey s))
      else if truthy (raw payload ItemsKeyId)
        then Inr (map_option ItemsKey (itemsKeyForPayload s payload))
      else if version payload = getLatestVersion
        then Inl NoKeyForLatestVersion
      else Inr (map_option ItemsKey (defaultItemsKeyForItemVersion s (version payload))))"

definition payloadByEncryptingPayload ::
  "Host \<Rightarrow> ProtocolService \<Rightarrow> PurePayload \<Rightarrow> EncryptionIntent option \<Rightarrow> AnyKey option
     \<Rightarrow> ProtocolError + PurePayload" where
  "payloadByEncryptingPayload h s payload intent key =
     (if truthy (raw payload ErrorDecrypting) then Inr payload
      else case intent of
        None \<Rightarrow> Inl NullIntent
      | Some i \<Rightarrow>
          (case (if key = None \<and> \<not> isDecryptedIntent i
                 then keyToUseForEncryptionOfPayload s payload intent else Inr key) of
             Inl e \<Rightarrow> Inl e
           | Inr key' \<Rightarrow>
               if key' = None \<and> intentRequiresEncryption i then Inl NoKeyForEncryption
               else if format payload \<noteq> DecryptedBareObject then Inl AlreadyEncrypted
               else if \<not> truthy (raw payload Content) then Inl NoContentToEncrypt
               else if \<not> truthy (raw payload Uuid) then Inl NoUuidToEncrypt
               else
                 (let v = (case key' of Some k \<Rightarrow> key_version k | None \<Rightarrow> getLatestVersion) in
                  case payloadContentFormatForIntent i key' of
                    Inl e \<Rightarrow> Inl e
                  | Inr fmt \<Rightarrow>
                      (case operatorForVersion v of
                         Inl e \<Rightarrow> Inl e
                       | Inr operator \<Rightarrow>
                           (case generateEncryptedParameters h operator payload fmt key' of
                              Inl e \<Rightarrow> Inl e
                            | Inr None \<Rightarrow> Inl NoEncryptionParameters
                            | Inr (Some encryptionParameters) \<Rightarrow>
                                CreateIntentPayloadFromObject (mergeObjects h) (raw payload) i
                                  (Some encryptionParameters))))))"

definition payloadByDecryptingPayload ::
  "Host \<Rightarrow> ProtocolService \<Rightarrow> PurePayload \<Rightarrow> AnyKey option \<Rightarrow> ProtocolError + PurePayload" where
  "payloadByDecryptingPayload h s payload key =
     (if \<not> truthy (raw payload Content) then Inl NoContentToDecrypt
      else if format payload = DecryptedBareObject then Inr payload
      else
        (let lookup = (key = None \<and> format payload = EncryptedString) in
         case (if lookup then keyToUseForDecryptionOfPayload s payload else Inr key) of
           Inl e \<Rightarrow> Inl e
         | Inr key' \<Rightarrow>
             if lookup \<and> key' = None then
               CreateMaxPayloadFromAnyObject (mergeObjects h) (raw payload) None None
                 (Some [WaitingForKey \<mapsto> JBool True, ErrorDecrypting \<mapsto> JBool True])
             else
               (case operatorForVersion (version payload) of
                  Inl e \<Rightarrow> Inl e
                | Inr operator \<Rightarrow>
                    (case generateDecryptedParameters h operator
                            (CreateEncryptionParameters (mergeObjects h) (raw payload)) key' of
                       Inl e \<Rightarrow> Inl e
                     | Inr decryptedParameters \<Rightarrow>
                         CreateMaxPayloadFromAnyObject (mergeObjects h) (raw payload) None None
                           (Some decryptedParameters)))))"

text \<open>
  \<^verbatim>\<open>payloadsByDecryptingPayloads\<close>: one pass of the loop body is \<open>decryptInBatch\<close>. An element
  of the input may be null (\<open>None\<close>); it is pushed as it is. The \<^verbatim>\<open>catch\<close> block builds its
  payload with \<^verbatim>\<open>CreateMaxPayloadFromAnyObject\<close>, outside the \<^verbatim>\<open>try\<close>.
\<close>

definition decryptInBatch ::
  "Host \<Rightarrow> ProtocolService \<Rightarrow> AnyKey option \<Rightarrow> PurePayload option
     \<Rightarrow> ProtocolError + PurePayload option" where
  "decryptInBatch h s key element =
     (case element of
        None \<Rightarrow> Inr None
      | Some encryptedPayload \<Rightarrow>
          if raw encryptedPayload Deleted = Some (JBool True)
             \<and> isNullOrUndefined (raw encryptedPayload Content)
            then Inr (Some encryptedPayload)
          else if \<not> isString (raw encryptedPayload Content)
            then Inr (Some encryptedPayload)
          else
            (case payloadByDecryptingPayload h s encryptedPayload key of
               Inr decryptedPayload \<Rightarrow> Inr (Some decryptedPayload)
             | Inl e \<Rightarrow>
                 (case CreateMaxPayloadFromAnyObject (mergeObjects h) (raw encryptedPayload)
                         None None
                         (Some [ErrorDecrypting \<mapsto> JBool True,
                                ErrorDecryptingChanged \<mapsto>
                                  JBool (\<not> truthy (raw encryptedPayload ErrorDecrypting))]) of
                    Inl e' \<Rightarrow> Inl e'
                  | Inr errored \<Rightarrow> Inr (Some errored))))"

fun payloadsByDecryptingPayloads ::
  "Host \<Rightarrow> ProtocolService \<Rightarrow> PurePayload option list \<Rightarrow> AnyKey option
     \<Rightarrow> ProtocolError + PurePayload option list" where
  "payloadsByDecryptingPayloads h s [] key = Inr []"
| "payloadsByDecryptingPayloads h s (element # rest) key =
     (case decryptInBatch h s key element of
        Inl e \<Rightarrow> Inl e
      | Inr decrypted \<Rightarrow>
          (case payloadsByDecryptingPayloads h s rest key of
             Inl e \<Rightarrow> Inl e
           | Inr decryptedPayloads \<Rightarrow> Inr (decrypted # decryptedPayloads)))"

subsection \<open>The key manager\<close>

text \<open>
  A method of the key manager changes the state step by step and may throw in between: the
  result is the error thrown, if any, and the state at that point.
\<close>

definition notifyObserversOfKeyChange :: "ProtocolService \<Rightarrow> ProtocolService" where
  "notifyObserversOfKeyChange s = s\<lparr>keyChangeNotifications := Suc (keyChangeNotifications s)\<rparr>"

definition saveRootKeyToKeychain :: "ProtocolService \<Rightarrow> ProtocolError option \<times> ProtocolService" where
  "saveRootKeyToKeychain s =
     (case rootKey s of
        None \<Rightarrow> (Some NoRootKeyForKeychain, s)
      | Some rk \<Rightarrow>
          if keyMode s \<noteq> RootKeyOnly then (Some WrappedKeyToKeychain, s)
          else (None, s\<lparr>keychainValue := Some (rk_persistable rk)\<rparr>))"

definition wrapAndPersistRootKey ::
  "Host \<Rightarrow> SNRootKey \<Rightarrow> ProtocolService \<Rightarrow> ProtocolError option \<times> ProtocolService" where
  "wrapAndPersistRootKey h wrappingKey s =
     (case rootKey s of
        None \<Rightarrow> (Some NoRootKeyToWrap, s)
      | Some rk \<Rightarrow>
          (case CreateMaxPayloadFromAnyObject (mergeObjects h) (rk_fields rk) None None
                  (Some [Content \<mapsto> JObj (rk_persistable rk)]) of
             Inl e \<Rightarrow> (Some e, s)
           | Inr payload \<Rightarrow>
               (case payloadByEncryptingPayload h s payload (Some LocalStorageEncrypted)
                       (Some (RootKey wrappingKey)) of
                  Inl e \<Rightarrow> (Some e, s)
                | Inr wrappedKey \<Rightarrow>
                    (None, s\<lparr>nonwrappedStorage :=
                                (nonwrappedStorage s)(WrappedRootKey \<mapsto> StoredPayload wrappedKey)\<rparr>))))"

text \<open>
  Modelled from the spec: \<^verbatim>\<open>setItemsDirty\<close> and \<^verbatim>\<open>setItemsToBeDeleted\<close> are methods of the model
  manager (\<^verbatim>\<open>services/model_manager\<close>, not among the repository's files). By the spec the
  items keys are re-encrypted ``by marking them dirty'', and an item to be deleted is marked
  ``deleted+dirty''; it stays in the manager until a sync has sent the deletion. Items are
  never handed out by reference, so a list of items keys read earlier is not changed by
  either.
\<close>

definition setItemsDirty :: "SNItemsKey list \<Rightarrow> ProtocolService \<Rightarrow> ProtocolService" where
  "setItemsDirty ks s =
     s\<lparr>allItemsKeys :=
         map (\<lambda>k. if ik_uuid k \<in> set (map ik_uuid ks) then k\<lparr>ik_dirty := True\<rparr> else k)
             (allItemsKeys s)\<rparr>"

definition setItemsToBeDeleted :: "SNItemsKey list \<Rightarrow> ProtocolService \<Rightarrow> ProtocolService" where
  "setItemsToBeDeleted ks s =
     s\<lparr>allItemsKeys :=
         map (\<lambda>k. if ik_uuid k \<in> set (map ik_uuid ks)
                   then k\<lparr>ik_deleted := True, ik_dirty := True\<rparr> else k)
             (allItemsKeys s)\<rparr>"

definition reencryptItemsKeys :: "ProtocolService \<Rightarrow> ProtocolService" where
  "reencryptItemsKeys s =
     (let itemsKeys = allItemsKeys s
      in if length itemsKeys > 0 then setItemsDirty itemsKeys s else s)"

text \<open>
  \<^verbatim>\<open>setNewRootKey\<close>. The four key modes are all handled by the first chain of tests, so its
  final \<^verbatim>\<open>throw\<close> is never reached.
\<close>

definition setNewRootKey ::
  "Host \<Rightarrow> SNRootKey \<Rightarrow> SNRootKeyParams option \<Rightarrow> SNRootKey option \<Rightarrow> ProtocolService
     \<Rightarrow> ProtocolError option \<times> ProtocolService" where
  "setNewRootKey h key keyParams wrappingKey s =
     (case keyParams of
        None \<Rightarrow> (Some KeyParamsMissing, s)
      | Some kp \<Rightarrow>
          if rootKey s = Some key then (Some SameRootKey, s)
          else
            (let s1 = s\<lparr>keyMode :=
                         (if keyMode s = WrapperOnly then RootKeyPlusWrapper
                          else if keyMode s = RootKeyNone then RootKeyOnly
                          else keyMode s)\<rparr>;
                 s2 = s1\<lparr>rootKey := Some key\<rparr>;
                 s3 = s2\<lparr>nonwrappedStorage :=
                           (nonwrappedStorage s2)(RootKeyParams \<mapsto> StoredKeyParams (kp_portable kp))\<rparr>;
                 (err, s4) =
                   (if keyMode s3 = RootKeyOnly then saveRootKeyToKeychain s3
                    else if keyMode s3 = RootKeyPlusWrapper then
                      (case wrappingKey of
                         None \<Rightarrow> (Some WrappingKeyMissing, s3)
                       | Some w \<Rightarrow> wrapAndPersistRootKey h w s3)
                    else (None, s3))
             in case err of
                  Some e \<Rightarrow> (Some e, s4)
                | None \<Rightarrow> (None, reencryptItemsKeys (notifyObserversOfKeyChange s4))))"

subsection \<open>The items-key manager\<close>

text \<open>
  \<^verbatim>\<open>createNewDefaultItemsKey\<close>. The new key's uuid comes from the uuid generator (the parameter
  \<open>freshUuid\<close>); its key material, which is all that the two branches on the version differ
  in, is not part of the model. The new item is mapped with \<open>dirty\<close> set.
\<close>

definition createNewDefaultItemsKey :: "UuidString \<Rightarrow> ProtocolService \<Rightarrow> ProtocolService" where
  "createNewDefaultItemsKey freshUuid s =
     (let operatorVersion = (case getRootKey s of Some rk \<Rightarrow> rk_version rk | None \<Rightarrow> getLatestVersion);
          itemsKey = \<lparr>ik_uuid = freshUuid, ik_version = operatorVersion, ik_isDefault = True,
                      ik_updated_at = None, ik_dirty = True, ik_deleted = False\<rparr>;
          s1 = (case getDefaultItemsKey s of
                  None \<Rightarrow> s
                | Some currentDefault \<Rightarrow>
                    s\<lparr>allItemsKeys :=
                        map (\<lambda>k. if ik_uuid k = ik_uuid currentDefault
                                  then k\<lparr>ik_isDefault := False, ik_dirty := True\<rparr> else k)
                            (allItemsKeys s)\<rparr>)
      in s1\<lparr>allItemsKeys := allItemsKeys s1 @ [itemsKey]\<rparr>)"

definition handleDownloadFirstSyncCompletion :: "UuidString \<Rightarrow> ProtocolService \<Rightarrow> ProtocolService" where
  "handleDownloadFirstSyncCompletion freshUuid s =
     (let allKeys = allItemsKeys s;
          neverSyncedKeys = filter neverSynced allKeys;
          defaultSyncedKey = find (\<lambda>key. \<not> neverSynced key \<and> ik_isDefault key) allKeys;
          hasSyncedItemsKey = (defaultSyncedKey \<noteq> None)
      in if hasSyncedItemsKey then setItemsToBeDeleted neverSyncedKeys s
         else
           (case getRootKey s of
              None \<Rightarrow> s
            | Some rk \<Rightarrow>
                (let toDelete = filter (\<lambda>itemsKey. ik_version itemsKey \<noteq> rk_version rk) neverSyncedKeys;
                     s1 = (if length toDelete > 0 then setItemsToBeDeleted toDelete s else s)
                 in if length allKeys = 0 then createNewDefaultItemsKey freshUuid s1 else s1)))"

section \<open>Protocol operator 001\<close>

text \<open>
  \<^verbatim>\<open>SNProtocolOperator001.decryptText\<close> and \<^verbatim>\<open>encryptText\<close>. The crypto primitives are the
  host's: \<open>hexStringToArrayBuffer\<close> is a parameter, whose result is a buffer or nothing
  (\<open>None\<close>: a null or undefined result, the only falsy ones, since a buffer object is always
  truthy). The result of a function is the call of the AES primitive it ends with.
  \<^verbatim>\<open>ivData\<close> is declared \<^verbatim>\<open>const\<close>, so the assignment in the branch \<^verbatim>\<open>if(!ivData)\<close> throws.
\<close>

type_synonym byte = "8 word"

datatype AesCall =
    Aes256CbcDecrypt string "byte list option" "byte list"
  | Aes256CbcEncrypt string "byte list option" "byte list"

datatype OperatorError = AssignmentToConstant

definition decryptText ::
  "(string \<Rightarrow> byte list option) \<Rightarrow> string \<Rightarrow> string \<Rightarrow> string option \<Rightarrow> OperatorError + AesCall" where
  "decryptText hexStringToArrayBuffer contentCiphertext encryptionKey iv =
     (let keyData = hexStringToArrayBuffer encryptionKey;
          ivData = hexStringToArrayBuffer (case iv of None \<Rightarrow> [] | Some t \<Rightarrow> t)
      in case ivData of
           None \<Rightarrow> Inl AssignmentToConstant
         | Some b \<Rightarrow> Inr (Aes256CbcDecrypt contentCiphertext keyData b))"

definition encryptText ::
  "(string \<Rightarrow> byte list option) \<Rightarrow> string \<Rightarrow> string \<Rightarrow> string option \<Rightarrow> OperatorError + AesCall" where
  "encryptText hexStringToArrayBuffer text rawKey iv =
     (let keyData = hexStringToArrayBuffer rawKey;
          ivData = hexStringToArrayBuffer (case iv of None \<Rightarrow> [] | Some t \<Rightarrow> t)
      in case ivData of
           None \<Rightarrow> Inl AssignmentToConstant
         | Some b \<Rightarrow> Inr (Aes256CbcEncrypt text keyData b))"

definition zeroIv :: "byte list" where
  "zeroIv = replicate 16 0"

section \<open>Stated properties\<close>

text \<open>
  Two predicates that word a property the way the specification does; they are not part of
  the model of the code.
\<close>

text \<open>
  What the batch decryption owes for one element of its input, as the specification words
  it: a null element, a deleted payload without content and a payload whose content is not a
  string come out as they went in; a string content is decrypted, and when that throws, the
  output is the input with \<open>errorDecrypting\<close> set, \<open>errorDecryptingValueChanged\<close> set to
  whether the flag was not set before, and every other field, the content included, as it was.
\<close>

definition decryptedInBatchAs ::
  "Host \<Rightarrow> ProtocolService \<Rightarrow> AnyKey option \<Rightarrow> PurePayload option \<Rightarrow> PurePayload option \<Rightarrow> bool" where
  "decryptedInBatchAs h s key element output =
     (case element of
        None \<Rightarrow> output = None
      | Some p \<Rightarrow>
          (raw p Deleted = Some (JBool True) \<and> isNullOrUndefined (raw p Content) \<longrightarrow> output = Some p)
        \<and> (\<not> isString (raw p Content) \<longrightarrow> output = Some p)
        \<and> (isString (raw p Content) \<longrightarrow>
             (\<forall>d. payloadByDecryptingPayload h s p key = Inr d \<longrightarrow> output = Some d)
           \<and> (\<forall>e. payloadByDecryptingPayload h s p key = Inl e \<longrightarrow>
                  (\<exists>q. output = Some q
                     \<and> raw q ErrorDecrypting = Some (JBool True)
                     \<and> raw q Content = raw p Content
                     \<and> raw q ErrorDecryptingChanged = Some (JBool (\<not> truthy (raw p ErrorDecrypting)))
                     \<and> (\<forall>k. k \<noteq> ErrorDecrypting \<and> k \<noteq> ErrorDecryptingChanged \<longrightarrow> raw q k = raw p k)
                     \<and> fieldList q = MaxPayloadFields))))"

text \<open>
  The key mode after a new root key has been set, as the specification words it.
\<close>

definition modeAfterNewRootKey :: "KeyMode \<Rightarrow> KeyMode" where
  "modeAfterNewRootKey m =
     (case m of RootKeyNone \<Rightarrow> RootKeyOnly | WrapperOnly \<Rightarrow> RootKeyPlusWrapper
              | RootKeyOnly \<Rightarrow> RootKeyOnly | RootKeyPlusWrapper \<Rightarrow> RootKeyPlusWrapper)"

section \<open>Sample data\<close>

text \<open>Concrete items, payloads, keys and states, on which the properties below are run.\<close>

subsection \<open>Items and an item manager with three observers\<close>

definition ex_note :: SNItem where
  "ex_note = \<lparr>uuid = ''N'', content_type = ContentType_Note, references = [], deleted = False,
              dirty = True, dummy = False, errorDecrypting = False, discardable = False\<rparr>"

definition ex_tag :: SNItem where
  "ex_tag = \<lparr>uuid = ''T'', content_type = ContentType_Tag,
             references = [\<lparr>ref_uuid = ''N'', ref_content_type = ContentType_Note\<rparr>],
             deleted = False, dirty = False, dummy = False, errorDecrypting = False,
             discardable = False\<rparr>"

definition ex_corrupt :: SNItem where
  "ex_corrupt = \<lparr>uuid = ''X'', content_type = ContentType_Note, references = [], deleted = False,
              dirty = True, dummy = False, errorDecrypting = True, discardable = False\<rparr>"

definition ex_manager :: ItemManager where
  "ex_manager = \<lparr>observers = [\<lparr>contentType = OneType ContentType_Any, callback = 0\<rparr>,
                              \<lparr>contentType = OneType ContentType_Tag, callback = 1\<rparr>,
                              \<lparr>contentType = ManyTypes [ContentType_Note, ContentType_Tag], callback = 2\<rparr>],
                  collection = [ex_note, ex_tag, ex_corrupt, ex_corrupt\<lparr>uuid := ''Y'', deleted := True\<rparr>],
                  referenceMap = Map.empty, inverseReferenceMap = Map.empty\<rparr>"

subsection \<open>Hosts: operators that seal, and that fail\<close>

definition ex_host :: Host where
  "ex_host =
     \<lparr>mergeObjects = (\<lambda>a b. b),
      generateEncryptedParameters =
        (\<lambda>v payload fmt key. Inr (Some [Content \<mapsto> JStr (v @ '':sealed'')])),
      generateDecryptedParameters =
        (\<lambda>v parameters key. Inl (OperatorFailure ''authentication failed''))\<rparr>"

definition ex_host_failing :: Host where
  "ex_host_failing =
     ex_host\<lparr>generateEncryptedParameters :=
                (\<lambda>v payload fmt key. Inl (OperatorFailure ''encryption failed''))\<rparr>"

subsection \<open>Keys and key params\<close>

definition ex_itemsKey :: SNItemsKey where
  "ex_itemsKey =
     \<lparr>ik_uuid = ''K'', ik_version = ''004'', ik_isDefault = True, ik_updated_at = Some 1000,
      ik_dirty = False, ik_deleted = False\<rparr>"

definition ex_staleKey :: SNItemsKey where
  "ex_staleKey =
     \<lparr>ik_uuid = ''S'', ik_version = ''003'', ik_isDefault = False, ik_updated_at = None,
      ik_dirty = False, ik_deleted = False\<rparr>"

definition ex_freshKey :: SNItemsKey where
  "ex_freshKey =
     \<lparr>ik_uuid = ''G'', ik_version = ''004'', ik_isDefault = True, ik_updated_at = Some 0,
      ik_dirty = True, ik_deleted = False\<rparr>"

definition ex_rootKey :: SNRootKey where
  "ex_rootKey =
     \<lparr>rk_ref = 1, rk_version = ''004'',
      rk_fields = [Uuid \<mapsto> JStr ''R'', ContentType \<mapsto> JStr ContentType_RootKey],
      rk_persistable = ''{masterKey: m1, version: 004}''\<rparr>"

definition ex_wrappingKey :: SNRootKey where
  "ex_wrappingKey =
     \<lparr>rk_ref = 2, rk_version = ''004'',
      rk_fields = [Uuid \<mapsto> JStr ''W'', ContentType \<mapsto> JStr ContentType_RootKey],
      rk_persistable = ''{masterKey: w1, version: 004}''\<rparr>"

definition ex_keyParams :: SNRootKeyParams where
  "ex_keyParams = \<lparr>kp_version = ''004'', kp_portable = ''{identifier: a@b.c, version: 004}''\<rparr>"

subsection \<open>States of the protocol service\<close>

definition ex_service :: ProtocolService where
  "ex_service =
     \<lparr>keyMode = RootKeyNone, rootKey = None, allItemsKeys = [], keychainValue = None,
      nonwrappedStorage = Map.empty, keyChangeNotifications = 0\<rparr>"

definition ex_service_keyed :: ProtocolService where
  "ex_service_keyed = ex_service\<lparr>allItemsKeys := [ex_itemsKey]\<rparr>"

definition ex_service_offline :: ProtocolService where
  "ex_service_offline = ex_service\<lparr>allItemsKeys := [ex_staleKey]\<rparr>"

definition ex_service_stale :: ProtocolService where
  "ex_service_stale =
     \<lparr>keyMode = RootKeyOnly, rootKey = Some ex_rootKey, allItemsKeys = [ex_staleKey],
      keychainValue = None, nonwrappedStorage = Map.empty, keyChangeNotifications = 0\<rparr>"

definition ex_service_synced :: ProtocolService where
  "ex_service_synced = ex_service_stale\<lparr>allItemsKeys := [ex_itemsKey, ex_staleKey]\<rparr>"

definition ex_service_mixed :: ProtocolService where
  "ex_service_mixed = ex_service_stale\<lparr>allItemsKeys := [ex_freshKey, ex_staleKey]\<rparr>"

definition ex_service_keyless :: ProtocolService where
  "ex_service_keyless = ex_service_stale\<lparr>allItemsKeys := []\<rparr>"

definition ex_service_rooted :: ProtocolService where
  "ex_service_rooted =
     \<lparr>keyMode = RootKeyOnly, rootKey = Some ex_rootKey, allItemsKeys = [ex_itemsKey],
      keychainValue = Some (rk_persistable ex_rootKey), nonwrappedStorage = Map.empty,
      keyChangeNotifications = 0\<rparr>"

definition ex_service_wrapper :: ProtocolService where
  "ex_service_wrapper =
     \<lparr>keyMode = WrapperOnly, rootKey = Some ex_wrappingKey, allItemsKeys = [ex_itemsKey, ex_staleKey],
      keychainValue = None, nonwrappedStorage = Map.empty, keyChangeNotifications = 0\<rparr>"

subsection \<open>Payloads\<close>

definition ex_encrypted :: PurePayload where
  "ex_encrypted =
     \<lparr>raw = [Uuid \<mapsto> JStr ''N'', ContentType \<mapsto> JStr ContentType_Note,
             Content \<mapsto> JStr ''004:nonce:ciphertext:aad'', ItemsKeyId \<mapsto> JStr ''K'',
             Dirty \<mapsto> JBool True],
      fieldList = MaxPayloadFields\<rparr>"

definition ex_errored :: PurePayload where
  "ex_errored = ex_encrypted\<lparr>raw := (raw ex_encrypted)(ErrorDecrypting \<mapsto> JBool True)\<rparr>"

definition ex_tombstone :: PurePayload where
  "ex_tombstone =
     \<lparr>raw = [Uuid \<mapsto> JStr ''D'', ContentType \<mapsto> JStr ContentType_Note, Deleted \<mapsto> JBool True],
      fieldList = MaxPayloadFields\<rparr>"

definition ex_decrypted :: PurePayload where
  "ex_decrypted =
     \<lparr>raw = [Uuid \<mapsto> JStr ''P'', ContentType \<mapsto> JStr ContentType_Note,
             Content \<mapsto> JObj ''{title: T, references: []}''],
      fieldList = MaxPayloadFields\<rparr>"

definition ex_legacy :: PurePayload where
  "ex_legacy =
     \<lparr>raw = [Uuid \<mapsto> JStr ''L'', ContentType \<mapsto> JStr ContentType_Note,
             Content \<mapsto> JStr ''004:nonce:ciphertext:aad''],
      fieldList = MaxPayloadFields\<rparr>"

definition ex_flagged :: "PurePayload \<Rightarrow> PurePayload" where
  "ex_flagged p =
     \<lparr>raw = (raw p)(ErrorDecrypting \<mapsto> JBool True, ErrorDecryptingChanged \<mapsto> JBool True),
      fieldList = MaxPayloadFields\<rparr>"

definition ex_waiting :: "PurePayload \<Rightarrow> PurePayload" where
  "ex_waiting p =
     \<lparr>raw = (raw p)(WaitingForKey \<mapsto> JBool True, ErrorDecrypting \<mapsto> JBool True),
      fieldList = MaxPayloadFields\<rparr>"

definition ex_wrappedRootKey :: PurePayload where
  "ex_wrappedRootKey =
     \<lparr>raw = [Uuid \<mapsto> JStr ''R'', ContentType \<mapsto> JStr ContentType_RootKey,
             Content \<mapsto> JStr ''004:sealed''],
      fieldList = StoragePayloadFields\<rparr>"

section \<open>Properties of the item manager\<close>

text \<open>
  C5. The dirty set returned by \<open>getDirtyItems\<close> is exactly the items of the collection with
  \<open>dirty \<and> \<not> dummy \<and> (\<not> errorDecrypting \<or> deleted)\<close>, in the collection's order; so an item
  flagged \<open>errorDecrypting\<close> is in the upload set only when it is deleted.
\<close>

theorem getDirtyItems_exact:
  "set (getDirtyItems m) =
     {i. i \<in> set (items m) \<and> dirty i \<and> \<not> dummy i \<and> (\<not> errorDecrypting i \<or> deleted i)}
   \<and> (\<forall>i. i \<in> set (getDirtyItems m) \<and> errorDecrypting i \<longrightarrow> deleted i)
   \<and> getDirtyItems m =
       filter (\<lambda>i. dirty i \<and> \<not> dummy i \<and> (\<not> errorDecrypting i \<or> deleted i)) (items m)"
  by (auto simp: getDirtyItems_def)

theorem getDirtyItems_exact_witness:
  "getDirtyItems ex_manager = [ex_note, ex_corrupt\<lparr>uuid := ''Y'', deleted := True\<rparr>]
   \<and> ex_corrupt \<notin> set (getDirtyItems ex_manager)"
proof -
  have a: "getDirtyItems ex_manager = [ex_note, ex_corrupt\<lparr>uuid := ''Y'', deleted := True\<rparr>]"
    by (simp add: getDirtyItems_def items_def ex_manager_def ex_note_def ex_tag_def ex_corrupt_def)
  have "\<forall>i. i \<in> set (getDirtyItems ex_manager) \<and> errorDecrypting i \<longrightarrow> deleted i"
    using getDirtyItems_exact [of ex_manager] by blast
  moreover have "errorDecrypting ex_corrupt" and "\<not> deleted ex_corrupt"
    by (simp_all add: ex_corrupt_def)
  ultimately have b: "ex_corrupt \<notin> set (getDirtyItems ex_manager)"
    by blast
  show ?thesis using a b by (rule conjI)
qed

text \<open>
  C10. An observer's filter is matched by strict equality against \<open>ContentType_Any\<close> or the
  item's content type. Every observer is called once per notification, in registration
  order; an observer registered with an array of content types receives the empty list, an
  observer registered with \<open>ContentType_Any\<close> all items, and an observer registered with one
  content type exactly the items of that type.
\<close>

theorem notifyObservers_array_filter:
  "notifyObservers m its ty source sourceKey =
     map (\<lambda>observer.
            \<lparr>n_callback = callback observer,
             n_items = (case contentType observer of
                          ManyTypes ts \<Rightarrow> []
                        | OneType t \<Rightarrow> if t = ContentType_Any then its
                                       else filter (\<lambda>item. content_type item = t) its),
             n_source = source, n_sourceKey = sourceKey, n_type = ty\<rparr>)
         (observers m)
   \<and> length (notifyObservers m its ty source sourceKey) = length (observers m)"
proof -
  have rel: "relevantItems observer its =
      (case contentType observer of
         ManyTypes ts \<Rightarrow> []
       | OneType t \<Rightarrow> if t = ContentType_Any then its
                      else filter (\<lambda>item. content_type item = t) its)" for observer
    by (cases "contentType observer") (auto simp: relevantItems_def intro: filter_cong)
  show ?thesis
    by (simp add: notifyObservers_def rel)
qed

theorem notifyObservers_array_filter_witness:
  "map n_items (notifyObservers ex_manager [ex_note, ex_tag] Inserted None None)
     = [[ex_note, ex_tag], [ex_tag], []]"
  using notifyObservers_array_filter [of ex_manager "[ex_note, ex_tag]" Inserted None None]
  by (simp add: ex_manager_def ex_note_def ex_tag_def ContentType_Any_def ContentType_Tag_def
        ContentType_Note_def)

text \<open>
  C1. The claim: the direct and the inverse reference index stay consistent, without
  duplicates, and the direct entry of a live item is its current list of references, also
  when that list becomes empty. The code at a tag \<open>T\<close> that references a note \<open>N\<close>: after the
  tag has changed to no references (state \<open>m2\<close>) both indices still hold the old reference;
  after the unchanged tag is mapped again (\<open>m3\<close>) the inverse entry of \<open>N\<close> holds \<open>T\<close> twice;
  after the tag has changed to reference \<open>M\<close> instead (\<open>m4\<close>) the inverse entry of \<open>N\<close> still
  holds \<open>T\<close>. This holds whatever \<^verbatim>\<open>removeFromArray\<close> does.
\<close>

theorem reference_index_left_stale:
  "(let m1 = fst (setPayloads rm [ex_tag] Inserted None None newItemManager);
        m2 = fst (setPayloads rm [ex_tag\<lparr>references := []\<rparr>] Changed None None m1);
        m3 = fst (setPayloads rm [ex_tag] Changed None None m1);
        m4 = fst (setPayloads rm
                    [ex_tag\<lparr>references := [\<lparr>ref_uuid = ''M'', ref_content_type = ContentType_Note\<rparr>]\<rparr>]
                    Changed None None m1)
    in referenceMap m1 ''T'' = Some [''N'']
       \<and> inverseReferenceMap m1 ''N'' = Some [''T'']
       \<and> map references (collection m2) = [[]]
       \<and> map deleted (collection m2) = [False]
       \<and> referenceMap m2 ''T'' = Some [''N'']
       \<and> inverseReferenceMap m2 ''N'' = Some [''T'']
       \<and> inverseReferenceMap m3 ''N'' = Some [''T'', ''T'']
       \<and> referenceMap m4 ''T'' = Some [''M'']
       \<and> inverseReferenceMap m4 ''N'' = Some [''T''])"
  by (simp add: setPayloads_def indexItem_def establishReferenceIndex_def establishStep_def
        newItemManager_def ex_tag_def collection_set_def Let_def)

section \<open>Properties of payloads and of the protocol service\<close>

subsection \<open>Building payloads\<close>

lemma set_MaxPayloadFields: "set MaxPayloadFields = UNIV"
proof -
  have "k \<in> set MaxPayloadFields" for k
    by (cases k) (simp_all add: MaxPayloadFields_def)
  then show ?thesis by blast
qed

lemma pickByCopy_Max: "pickByCopy object MaxPayloadFields = object"
  by (simp add: pickByCopy_def set_MaxPayloadFields)

lemma deepMerge_flags:
  "deepMerge mo t [a \<mapsto> JBool x, b \<mapsto> JBool y] = t(a \<mapsto> JBool x, b \<mapsto> JBool y)"
  by (rule ext) (simp add: deepMerge_def)

lemma CreateMax_flags:
  "CreateMaxPayloadFromAnyObject mo object None None (Some [a \<mapsto> JBool x, b \<mapsto> JBool y])
     = Inr \<lparr>raw = object(a \<mapsto> JBool x, b \<mapsto> JBool y), fieldList = MaxPayloadFields\<rparr>"
  by (simp add: CreateMaxPayloadFromAnyObject_def CreatePayload_def pickByCopy_Max deepMerge_flags)

lemma deepMerge_string: "deepMerge mo t [a \<mapsto> JStr x] = t(a \<mapsto> JStr x)"
  by (rule ext) (simp add: deepMerge_def)

lemma deepMerge_fresh_object:
  "t a = None \<Longrightarrow> deepMerge mo t [a \<mapsto> JObj b] = t(a \<mapsto> JObj b)"
  by (rule ext) (simp add: deepMerge_def)

subsection \<open>Encryption and decryption\<close>

text \<open>
  C2. A payload whose \<open>errorDecrypting\<close> flag is set comes back from
  \<open>payloadByEncryptingPayload\<close> as it is, whatever the intent (a null intent included) and the
  key: the flag is the first thing the function tests.
\<close>

theorem encrypting_errored_payload:
  "truthy (raw payload ErrorDecrypting)
     \<Longrightarrow> payloadByEncryptingPayload h s payload intent key = Inr payload"
  by (simp add: payloadByEncryptingPayload_def)

theorem encrypting_errored_payload_witness:
  "truthy (raw ex_errored ErrorDecrypting)
   \<and> payloadByEncryptingPayload ex_host ex_service ex_errored None None = Inr ex_errored
   \<and> payloadByEncryptingPayload ex_host ex_service ex_errored (Some Sync) (Some (ItemsKey ex_itemsKey))
       = Inr ex_errored"
proof -
  have t: "truthy (raw ex_errored ErrorDecrypting)"
    by (simp add: ex_errored_def)
  show ?thesis
    using t encrypting_errored_payload [OF t, of ex_host ex_service None None]
      encrypting_errored_payload [OF t, of ex_host ex_service "Some Sync" "Some (ItemsKey ex_itemsKey)"]
    by simp
qed

lemma isNullOrUndefined_not_string: "isNullOrUndefined v \<Longrightarrow> \<not> isString v"
  by (cases v rule: isNullOrUndefined.cases) simp_all

lemma decryptInBatch_total:
  "\<exists>y. decryptInBatch h s key e = Inr y \<and> decryptedInBatchAs h s key e y"
proof (cases e)
  case None
  then show ?thesis
    by (simp add: decryptInBatch_def decryptedInBatchAs_def)
next
  case (Some p)
  show ?thesis
  proof (cases "isString (raw p Content)")
    case False
    with Some show ?thesis
      by (simp add: decryptInBatch_def decryptedInBatchAs_def)
  next
    case True
    then have nn: "\<not> isNullOrUndefined (raw p Content)"
      using isNullOrUndefined_not_string by blast
    show ?thesis
    proof (cases "payloadByDecryptingPayload h s p key")
      case (Inr d)
      with Some True nn show ?thesis
        by (simp add: decryptInBatch_def decryptedInBatchAs_def)
    next
      case (Inl err)
      with Some True nn show ?thesis
        by (simp add: decryptInBatch_def decryptedInBatchAs_def CreateMax_flags)
    qed
  qed
qed

text \<open>
  C3. The batch decryption returns for every input list, with one output per input, in
  order: a deleted payload without content and a payload whose content is not a string are
  passed through, and a payload whose decryption throws comes out alone with
  \<open>errorDecrypting\<close> set, its content as it was, and \<open>errorDecryptingValueChanged\<close> set exactly
  when the flag was not set before.
\<close>

theorem batch_decrypt_never_aborts:
  "\<exists>out. payloadsByDecryptingPayloads h s ps key = Inr out
     \<and> length out = length ps
     \<and> list_all2 (decryptedInBatchAs h s key) ps out"
proof (induction ps)
  case Nil
  show ?case by simp
next
  case (Cons e ps)
  from decryptInBatch_total [of h s key e] obtain y where
    y: "decryptInBatch h s key e = Inr y" and py: "decryptedInBatchAs h s key e y"
    by blast
  from Cons.IH obtain out where
    out: "payloadsByDecryptingPayloads h s ps key = Inr out" and
    len: "length out = length ps" and
    rel: "list_all2 (decryptedInBatchAs h s key) ps out"
    by blast
  have "payloadsByDecryptingPayloads h s (e # ps) key = Inr (y # out)"
    by (simp add: y out)
  moreover have "length (y # out) = length (e # ps)"
    by (simp add: len)
  moreover have "list_all2 (decryptedInBatchAs h s key) (e # ps) (y # out)"
    using py rel by simp
  ultimately show ?case
    by blast
qed

lemma ex_encrypted_throws:
  "payloadByDecryptingPayload ex_host ex_service_keyed ex_encrypted None
     = Inl (OperatorFailure ''authentication failed'')"
  by (simp add: payloadByDecryptingPayload_def ex_encrypted_def format_def version_def
      VersionLength_def V000Base64Decrypted_def keyToUseForDecryptionOfPayload_def
      contentTypeUsesRootKeyEncryption_def ContentType_Note_def ContentType_ItemsKey_def
      ContentType_EncryptedStorage_def itemsKeyForPayload_def ex_service_keyed_def ex_service_def
      ex_itemsKey_def operatorForVersion_def createOperatorForVersion_def V001_def V002_def
      V003_def V004_def ex_host_def)

lemma ex_legacy_throws:
  "payloadByDecryptingPayload ex_host ex_service_keyed ex_legacy None = Inl NoKeyForLatestVersion"
  by (simp add: payloadByDecryptingPayload_def ex_legacy_def format_def version_def
      VersionLength_def V000Base64Decrypted_def keyToUseForDecryptionOfPayload_def
      contentTypeUsesRootKeyEncryption_def ContentType_Note_def ContentType_ItemsKey_def
      ContentType_EncryptedStorage_def getLatestVersion_def V004_def)

theorem batch_decrypt_never_aborts_witness:
  "payloadsByDecryptingPayloads ex_host ex_service_keyed
      [None, Some ex_tombstone, Some ex_decrypted, Some ex_encrypted, Some ex_legacy] None
    = Inr [None, Some ex_tombstone, Some ex_decrypted, Some (ex_flagged ex_encrypted),
           Some (ex_flagged ex_legacy)]
   \<and> (\<exists>out. payloadsByDecryptingPayloads ex_host ex_service_keyed
                [None, Some ex_tombstone, Some ex_decrypted, Some ex_encrypted, Some ex_legacy] None
              = Inr out \<and> length out = 5)"
proof -
  have t: "decryptInBatch ex_host ex_service_keyed None (Some ex_tombstone) = Inr (Some ex_tombstone)"
    by (simp add: decryptInBatch_def ex_tombstone_def)
  have d: "decryptInBatch ex_host ex_service_keyed None (Some ex_decrypted) = Inr (Some ex_decrypted)"
    by (simp add: decryptInBatch_def ex_decrypted_def)
  have s1: "isString (raw ex_encrypted Content)" "raw ex_encrypted Deleted = None"
    "\<not> truthy (raw ex_encrypted ErrorDecrypting)"
    by (simp_all add: ex_encrypted_def)
  have e: "decryptInBatch ex_host ex_service_keyed None (Some ex_encrypted)
             = Inr (Some (ex_flagged ex_encrypted))"
    by (simp add: decryptInBatch_def ex_encrypted_throws s1 CreateMax_flags ex_flagged_def)
  have s2: "isString (raw ex_legacy Content)" "raw ex_legacy Deleted = None"
    "\<not> truthy (raw ex_legacy ErrorDecrypting)"
    by (simp_all add: ex_legacy_def)
  have l: "decryptInBatch ex_host ex_service_keyed None (Some ex_legacy)
             = Inr (Some (ex_flagged ex_legacy))"
    by (simp add: decryptInBatch_def ex_legacy_throws s2 CreateMax_flags ex_flagged_def)
  have n: "decryptInBatch ex_host ex_service_keyed None None = Inr None"
    by (simp add: decryptInBatch_def)
  have run: "payloadsByDecryptingPayloads ex_host ex_service_keyed
      [None, Some ex_tombstone, Some ex_decrypted, Some ex_encrypted, Some ex_legacy] None
    = Inr [None, Some ex_tombstone, Some ex_decrypted, Some (ex_flagged ex_encrypted),
           Some (ex_flagged ex_legacy)]"
    by (simp add: n t d e l)
  from batch_decrypt_never_aborts [of ex_host ex_service_keyed
      "[None, Some ex_tombstone, Some ex_decrypted, Some ex_encrypted, Some ex_legacy]" None]
  have "\<exists>out. payloadsByDecryptingPayloads ex_host ex_service_keyed
                [None, Some ex_tombstone, Some ex_decrypted, Some ex_encrypted, Some ex_legacy] None
              = Inr out \<and> length out = 5"
    by auto
  with run show ?thesis by blast
qed

text \<open>
  C4. As stated the claim fails: a payload of an ordinary content type without
  \<^verbatim>\<open>items_key_id\<close>, encrypted with the latest version, for which no key exists at all, makes
  \<open>payloadByDecryptingPayload\<close> throw instead of returning a payload that waits for its key.
\<close>

theorem decrypt_without_key_counterexample:
  "format ex_legacy = EncryptedString
   \<and> rootKey ex_service = None \<and> allItemsKeys ex_service = []
   \<and> itemsKeyForPayload ex_service ex_legacy = None
   \<and> getDefaultItemsKey ex_service = None
   \<and> defaultItemsKeyForItemVersion ex_service (version ex_legacy) = None
   \<and> payloadByDecryptingPayload ex_host ex_service ex_legacy None = Inl NoKeyForLatestVersion"
  by (simp add: payloadByDecryptingPayload_def ex_legacy_def format_def version_def
      VersionLength_def V000Base64Decrypted_def keyToUseForDecryptionOfPayload_def
      contentTypeUsesRootKeyEncryption_def ContentType_Note_def ContentType_ItemsKey_def
      ContentType_EncryptedStorage_def getLatestVersion_def V004_def ex_service_def
      itemsKeyForPayload_def getDefaultItemsKey_def defaultItemsKeyForItemVersion_def)

text \<open>
  C4, amended. For a non-empty encrypted string decrypted without a key argument: when the
  lookup finds no key (no root key for a root-key content type; otherwise no items key with
  the payload's \<^verbatim>\<open>items_key_id\<close>; or, without \<^verbatim>\<open>items_key_id\<close> and with a version other than
  the latest, no items key of the payload's version), the result is the payload with
  \<open>waitingForKey\<close> and \<open>errorDecrypting\<close> set and every other field, the content included, as
  it was. For an ordinary content type without \<^verbatim>\<open>items_key_id\<close> and with the latest version
  the function throws.
\<close>

theorem decrypt_without_key:
  assumes "format payload = EncryptedString" and "truthy (raw payload Content)"
  shows
    "((if contentTypeUsesRootKeyEncryption (raw payload ContentType) then getRootKey s = None
       else if truthy (raw payload ItemsKeyId) then itemsKeyForPayload s payload = None
       else version payload \<noteq> getLatestVersion
            \<and> defaultItemsKeyForItemVersion s (version payload) = None)
      \<longrightarrow> (\<exists>q. payloadByDecryptingPayload h s payload None = Inr q
             \<and> raw q WaitingForKey = Some (JBool True)
             \<and> raw q ErrorDecrypting = Some (JBool True)
             \<and> raw q Content = raw payload Content
             \<and> (\<forall>k. k \<noteq> WaitingForKey \<and> k \<noteq> ErrorDecrypting \<longrightarrow> raw q k = raw payload k)
             \<and> fieldList q = MaxPayloadFields))
   \<and> (\<not> contentTypeUsesRootKeyEncryption (raw payload ContentType)
      \<and> \<not> truthy (raw payload ItemsKeyId) \<and> version payload = getLatestVersion
      \<longrightarrow> payloadByDecryptingPayload h s payload None = Inl NoKeyForLatestVersion)"
  using assms
  by (auto simp: payloadByDecryptingPayload_def keyToUseForDecryptionOfPayload_def CreateMax_flags)

theorem decrypt_without_key_witness:
  "format ex_encrypted = EncryptedString \<and> truthy (raw ex_encrypted Content)
   \<and> \<not> contentTypeUsesRootKeyEncryption (raw ex_encrypted ContentType)
   \<and> truthy (raw ex_encrypted ItemsKeyId)
   \<and> itemsKeyForPayload ex_service ex_encrypted = None
   \<and> payloadByDecryptingPayload ex_host ex_service ex_encrypted None = Inr (ex_waiting ex_encrypted)
   \<and> format ex_legacy = EncryptedString \<and> truthy (raw ex_legacy Content)
   \<and> \<not> contentTypeUsesRootKeyEncryption (raw ex_legacy ContentType)
   \<and> \<not> truthy (raw ex_legacy ItemsKeyId) \<and> version ex_legacy = getLatestVersion
   \<and> payloadByDecryptingPayload ex_host ex_service ex_legacy None = Inl NoKeyForLatestVersion"
proof -
  have a: "format ex_encrypted = EncryptedString" "truthy (raw ex_encrypted Content)"
    "\<not> contentTypeUsesRootKeyEncryption (raw ex_encrypted ContentType)"
    "truthy (raw ex_encrypted ItemsKeyId)" "itemsKeyForPayload ex_service ex_encrypted = None"
    by (simp_all add: ex_encrypted_def format_def VersionLength_def V000Base64Decrypted_def
        contentTypeUsesRootKeyEncryption_def ContentType_Note_def ContentType_ItemsKey_def
        ContentType_EncryptedStorage_def itemsKeyForPayload_def ex_service_def)
  have b: "format ex_legacy = EncryptedString" "truthy (raw ex_legacy Content)"
    "\<not> contentTypeUsesRootKeyEncryption (raw ex_legacy ContentType)"
    "\<not> truthy (raw ex_legacy ItemsKeyId)" "version ex_legacy = getLatestVersion"
    by (simp_all add: ex_legacy_def format_def version_def VersionLength_def
        V000Base64Decrypted_def contentTypeUsesRootKeyEncryption_def ContentType_Note_def
        ContentType_ItemsKey_def ContentType_EncryptedStorage_def getLatestVersion_def V004_def)
  from decrypt_without_key [OF a(1,2), of ex_service ex_host] a(3,4,5)
  obtain q where q: "payloadByDecryptingPayload ex_host ex_service ex_encrypted None = Inr q"
    and w: "raw q WaitingForKey = Some (JBool True)"
    and e: "raw q ErrorDecrypting = Some (JBool True)"
    and r: "\<forall>k. k \<noteq> WaitingForKey \<and> k \<noteq> ErrorDecrypting \<longrightarrow> raw q k = raw ex_encrypted k"
    and f: "fieldList q = MaxPayloadFields"
    by auto
  have "raw q = raw (ex_waiting ex_encrypted)"
  proof (rule ext)
    fix k show "raw q k = raw (ex_waiting ex_encrypted) k"
      using w e r by (cases "k = WaitingForKey \<or> k = ErrorDecrypting") (auto simp: ex_waiting_def)
  qed
  with f have "q = ex_waiting ex_encrypted"
    by (simp add: ex_waiting_def)
  with q have c: "payloadByDecryptingPayload ex_host ex_service ex_encrypted None
                    = Inr (ex_waiting ex_encrypted)"
    by simp
  from decrypt_without_key [OF b(1,2), of ex_service ex_host] b(3,4,5)
  have d: "payloadByDecryptingPayload ex_host ex_service ex_legacy None = Inl NoKeyForLatestVersion"
    by blast
  show ?thesis
    using a b c d by simp
qed

subsection \<open>The server format\<close>

text \<open>
  C8. The intents \<open>Sync\<close> and \<open>SyncDecrypted\<close> and the sources \<open>RemoteRetrieved\<close>,
  \<open>ConflictData\<close> and \<open>ConflictUuid\<close>, and no others, project to \<open>ServerPayloadFields\<close>: the
  uuid, the content type, the items key id, the encrypted item key, the content, the two
  dates, the deleted flag and the legacy auth hash. None of the client-only fields is among
  them; a payload built for them has this field set, and no key outside it but those that an
  override brings.
\<close>

theorem server_format_fields:
  "(payloadFieldsForIntent intent = Inr ServerPayloadFields) = (intent = Sync \<or> intent = SyncDecrypted)
   \<and> (payloadFieldsForSource source = Inr ServerPayloadFields)
       = (source = RemoteRetrieved \<or> source = ConflictData \<or> source = ConflictUuid)
   \<and> set ServerPayloadFields
       = {Uuid, ContentType, ItemsKeyId, EncItemKey, Content, CreatedAt, UpdatedAt, Deleted,
          Legacy003AuthHash}
   \<and> set ServerPayloadFields
        \<inter> {Dirty, DirtiedDate, LastSyncBegan, LastSyncEnd, WaitingForKey, ErrorDecrypting,
            ErrorDecryptingChanged, Dummy} = {}
   \<and> fieldList (CreatePayload mo object ServerPayloadFields override) = ServerPayloadFields
   \<and> dom (raw (CreatePayload mo object ServerPayloadFields None)) \<subseteq> set ServerPayloadFields
   \<and> dom (raw (CreatePayload mo object ServerPayloadFields (Some ov)))
        \<subseteq> set ServerPayloadFields \<union> dom ov
   \<and> CreateIntentPayloadFromObject mo object Sync override
       = Inr (CreatePayload mo object ServerPayloadFields override)
   \<and> CreateIntentPayloadFromObject mo object SyncDecrypted override
       = Inr (CreatePayload mo object ServerPayloadFields override)
   \<and> CreateSourcedPayloadFromObject mo object RemoteRetrieved override
       = Inr (CreatePayload mo object ServerPayloadFields override)
   \<and> CreateSourcedPayloadFromObject mo object ConflictData override
       = Inr (CreatePayload mo object ServerPayloadFields override)
   \<and> CreateSourcedPayloadFromObject mo object ConflictUuid override
       = Inr (CreatePayload mo object ServerPayloadFields override)"
proof -
  have i: "(payloadFieldsForIntent intent = Inr ServerPayloadFields)
            = (intent = Sync \<or> intent = SyncDecrypted)"
    by (cases intent)
       (simp_all add: payloadFieldsForIntent_def ServerPayloadFields_def FilePayloadFields_def
          StoragePayloadFields_def)
  have s: "(payloadFieldsForSource source = Inr ServerPayloadFields)
            = (source = RemoteRetrieved \<or> source = ConflictData \<or> source = ConflictUuid)"
    by (cases source)
       (simp_all add: payloadFieldsForSource_def ServerPayloadFields_def FilePayloadFields_def
          StoragePayloadFields_def SessionHistoryPayloadFields_def
          ComponentRetrievedPayloadFields_def ServerSavedPayloadFields_def)
  have f: "set ServerPayloadFields
       = {Uuid, ContentType, ItemsKeyId, EncItemKey, Content, CreatedAt, UpdatedAt, Deleted,
          Legacy003AuthHash}"
    by (simp add: ServerPayloadFields_def)
  have d: "set ServerPayloadFields
        \<inter> {Dirty, DirtiedDate, LastSyncBegan, LastSyncEnd, WaitingForKey, ErrorDecrypting,
            ErrorDecryptingChanged, Dummy} = {}"
    by (simp add: ServerPayloadFields_def)
  have c: "fieldList (CreatePayload mo object ServerPayloadFields override) = ServerPayloadFields"
    by (simp add: CreatePayload_def Let_def)
  have r: "dom (raw (CreatePayload mo object ServerPayloadFields None)) \<subseteq> set ServerPayloadFields"
    by (auto simp: CreatePayload_def pickByCopy_def split: if_splits)
  have r': "dom (raw (CreatePayload mo object ServerPayloadFields (Some ov)))
        \<subseteq> set ServerPayloadFields \<union> dom ov"
    by (auto simp: CreatePayload_def pickByCopy_def deepMerge_def Let_def
        split: if_splits option.splits jsval.splits)
  have p: "CreateIntentPayloadFromObject mo object Sync override
             = Inr (CreatePayload mo object ServerPayloadFields override)"
    "CreateIntentPayloadFromObject mo object SyncDecrypted override
             = Inr (CreatePayload mo object ServerPayloadFields override)"
    by (simp_all add: CreateIntentPayloadFromObject_def payloadFieldsForIntent_def)
  have q: "CreateSourcedPayloadFromObject mo object RemoteRetrieved override
       = Inr (CreatePayload mo object ServerPayloadFields override)"
    "CreateSourcedPayloadFromObject mo object ConflictData override
       = Inr (CreatePayload mo object ServerPayloadFields override)"
    "CreateSourcedPayloadFromObject mo object ConflictUuid override
       = Inr (CreatePayload mo object ServerPayloadFields override)"
    by (simp_all add: CreateSourcedPayloadFromObject_def payloadFieldsForSource_def)
  show ?thesis
    using i s f d c r r' p q by blast
qed

theorem server_format_fields_witness:
  "CreateIntentPayloadFromObject (\<lambda>a b. b) (raw ex_encrypted) Sync None
     = Inr \<lparr>raw = [Uuid \<mapsto> JStr ''N'', ContentType \<mapsto> JStr ContentType_Note,
                   Content \<mapsto> JStr ''004:nonce:ciphertext:aad'', ItemsKeyId \<mapsto> JStr ''K''],
            fieldList = ServerPayloadFields\<rparr>
   \<and> Dirty \<notin> set ServerPayloadFields"
proof -
  have "raw (CreatePayload (\<lambda>a b. b) (raw ex_encrypted) ServerPayloadFields None)
          = [Uuid \<mapsto> JStr ''N'', ContentType \<mapsto> JStr ContentType_Note,
             Content \<mapsto> JStr ''004:nonce:ciphertext:aad'', ItemsKeyId \<mapsto> JStr ''K'']"
    by (rule ext) (simp add: CreatePayload_def pickByCopy_def ServerPayloadFields_def ex_encrypted_def)
  moreover have "Dirty \<notin> set ServerPayloadFields"
    using server_format_fields [of Sync RemoteRetrieved "\<lambda>a b. b" "raw ex_encrypted" None Map.empty]
    by simp
  ultimately show ?thesis
    using server_format_fields [of Sync RemoteRetrieved "\<lambda>a b. b" "raw ex_encrypted" None Map.empty]
    by (simp add: CreatePayload_def)
qed

section \<open>Properties of the key manager and of the items-key manager\<close>

subsection \<open>Reconciliation of items keys after a download-first sync\<close>

text \<open>
  C6. As stated the claim fails where no root key is held (and no synced default items key
  exists): with no items keys at all no default items key is created, and a never-synced
  items key is kept although there is no root key whose version it could have.
\<close>

theorem download_first_counterexample:
  "rootKey ex_service = None \<and> allItemsKeys ex_service = []
   \<and> allItemsKeys (handleDownloadFirstSyncCompletion ''F'' ex_service) = []
   \<and> rootKey ex_service_offline = None
   \<and> allItemsKeys ex_service_offline = [ex_staleKey]
   \<and> neverSynced ex_staleKey
   \<and> allItemsKeys (handleDownloadFirstSyncCompletion ''F'' ex_service_offline) = [ex_staleKey]
   \<and> \<not> ik_deleted ex_staleKey"
  by (simp add: handleDownloadFirstSyncCompletion_def ex_service_def ex_service_offline_def
      ex_staleKey_def neverSynced_def getRootKey_def Let_def)

lemma setItemsToBeDeleted_none: "setItemsToBeDeleted [] s = s"
  by (simp add: setItemsToBeDeleted_def)

lemma find_None_iff_no: "(find P xs = None) = (\<not> (\<exists>x\<in>set xs. P x))"
  by (auto simp: find_None_iff)

text \<open>
  C6, amended. The never-synced items keys are those with \<open>neverSynced\<close> (a null or epoch
  \<^verbatim>\<open>updated_at\<close>). If some synced default items key exists, all never-synced keys are
  deleted. Otherwise, without a root key nothing is deleted or created; with a root key the
  never-synced keys of another version than the root key's are deleted and the others kept
  (stated where at least one items key is kept), and with no items keys at all a new default
  items key of the root key's version is created.
\<close>

theorem download_first_reconciliation:
  "((\<exists>k \<in> set (allItemsKeys s). \<not> neverSynced k \<and> ik_isDefault k) \<longrightarrow>
      handleDownloadFirstSyncCompletion freshUuid s
        = setItemsToBeDeleted (filter neverSynced (allItemsKeys s)) s)
   \<and> (\<not> (\<exists>k \<in> set (allItemsKeys s). \<not> neverSynced k \<and> ik_isDefault k) \<and> rootKey s = None \<longrightarrow>
      handleDownloadFirstSyncCompletion freshUuid s = s)
   \<and> (\<forall>rk. \<not> (\<exists>k \<in> set (allItemsKeys s). \<not> neverSynced k \<and> ik_isDefault k)
          \<and> rootKey s = Some rk
          \<and> (\<exists>k \<in> set (allItemsKeys s). \<not> (neverSynced k \<and> ik_version k \<noteq> rk_version rk)) \<longrightarrow>
      handleDownloadFirstSyncCompletion freshUuid s
        = setItemsToBeDeleted
            (filter (\<lambda>k. neverSynced k \<and> ik_version k \<noteq> rk_version rk) (allItemsKeys s)) s)
   \<and> (\<forall>rk. rootKey s = Some rk \<and> allItemsKeys s = [] \<longrightarrow>
      allItemsKeys (handleDownloadFirstSyncCompletion freshUuid s)
        = [\<lparr>ik_uuid = freshUuid, ik_version = rk_version rk, ik_isDefault = True,
            ik_updated_at = None, ik_dirty = True, ik_deleted = False\<rparr>])"
proof (intro conjI impI allI)
  assume "\<exists>k \<in> set (allItemsKeys s). \<not> neverSynced k \<and> ik_isDefault k"
  then have "find (\<lambda>key. \<not> neverSynced key \<and> ik_isDefault key) (allItemsKeys s) \<noteq> None"
    by (simp add: find_None_iff_no)
  then show "handleDownloadFirstSyncCompletion freshUuid s
        = setItemsToBeDeleted (filter neverSynced (allItemsKeys s)) s"
    by (simp add: handleDownloadFirstSyncCompletion_def Let_def)
next
  assume "\<not> (\<exists>k \<in> set (allItemsKeys s). \<not> neverSynced k \<and> ik_isDefault k) \<and> rootKey s = None"
  then have "find (\<lambda>key. \<not> neverSynced key \<and> ik_isDefault key) (allItemsKeys s) = None"
    and "rootKey s = None"
    by (simp_all add: find_None_iff_no)
  then show "handleDownloadFirstSyncCompletion freshUuid s = s"
    by (simp add: handleDownloadFirstSyncCompletion_def Let_def getRootKey_def)
next
  fix rk
  assume a: "\<not> (\<exists>k \<in> set (allItemsKeys s). \<not> neverSynced k \<and> ik_isDefault k)
          \<and> rootKey s = Some rk
          \<and> (\<exists>k \<in> set (allItemsKeys s). \<not> (neverSynced k \<and> ik_version k \<noteq> rk_version rk))"
  then have f: "find (\<lambda>key. \<not> neverSynced key \<and> ik_isDefault key) (allItemsKeys s) = None"
    and r: "rootKey s = Some rk" and ne: "allItemsKeys s \<noteq> []"
    by (auto simp: find_None_iff_no)
  have flt: "filter (\<lambda>itemsKey. ik_version itemsKey \<noteq> rk_version rk) (filter neverSynced (allItemsKeys s))
          = filter (\<lambda>k. neverSynced k \<and> ik_version k \<noteq> rk_version rk) (allItemsKeys s)"
    by (simp add: conj_commute)
  show "handleDownloadFirstSyncCompletion freshUuid s
        = setItemsToBeDeleted
            (filter (\<lambda>k. neverSynced k \<and> ik_version k \<noteq> rk_version rk) (allItemsKeys s)) s"
  proof (cases "filter (\<lambda>k. neverSynced k \<and> ik_version k \<noteq> rk_version rk) (allItemsKeys s) = []")
    case True
    then show ?thesis
      using f r ne
      by (simp add: handleDownloadFirstSyncCompletion_def Let_def getRootKey_def flt
          setItemsToBeDeleted_none del: filter_filter)
  next
    case False
    then show ?thesis
      using f r ne
      by (simp add: handleDownloadFirstSyncCompletion_def Let_def getRootKey_def flt
          del: filter_filter)
  qed
next
  fix rk
  assume "rootKey s = Some rk \<and> allItemsKeys s = []"
  then show "allItemsKeys (handleDownloadFirstSyncCompletion freshUuid s)
        = [\<lparr>ik_uuid = freshUuid, ik_version = rk_version rk, ik_isDefault = True,
            ik_updated_at = None, ik_dirty = True, ik_deleted = False\<rparr>]"
    by (simp add: handleDownloadFirstSyncCompletion_def Let_def getRootKey_def
        createNewDefaultItemsKey_def getDefaultItemsKey_def)
qed

theorem download_first_reconciliation_witness:
  "map ik_deleted (allItemsKeys (handleDownloadFirstSyncCompletion ''F'' ex_service_synced))
     = [False, True]
   \<and> handleDownloadFirstSyncCompletion ''F'' ex_service_offline = ex_service_offline
   \<and> map ik_deleted (allItemsKeys (handleDownloadFirstSyncCompletion ''F'' ex_service_mixed))
       = [False, True]
   \<and> allItemsKeys (handleDownloadFirstSyncCompletion ''F'' ex_service_keyless)
       = [\<lparr>ik_uuid = ''F'', ik_version = ''004'', ik_isDefault = True, ik_updated_at = None,
           ik_dirty = True, ik_deleted = False\<rparr>]"
proof -
  have a: "\<exists>k \<in> set (allItemsKeys ex_service_synced). \<not> neverSynced k \<and> ik_isDefault k"
    by (simp add: ex_service_synced_def ex_service_stale_def ex_itemsKey_def neverSynced_def)
  have a': "map ik_deleted (allItemsKeys
              (setItemsToBeDeleted (filter neverSynced (allItemsKeys ex_service_synced))
                 ex_service_synced)) = [False, True]"
    by (simp add: ex_service_synced_def ex_service_stale_def ex_itemsKey_def ex_staleKey_def
        neverSynced_def setItemsToBeDeleted_def)
  have b: "\<not> (\<exists>k \<in> set (allItemsKeys ex_service_offline). \<not> neverSynced k \<and> ik_isDefault k)
             \<and> rootKey ex_service_offline = None"
    by (simp add: ex_service_offline_def ex_service_def ex_staleKey_def neverSynced_def)
  have c: "\<not> (\<exists>k \<in> set (allItemsKeys ex_service_mixed). \<not> neverSynced k \<and> ik_isDefault k)
          \<and> rootKey ex_service_mixed = Some ex_rootKey
          \<and> (\<exists>k \<in> set (allItemsKeys ex_service_mixed).
                \<not> (neverSynced k \<and> ik_version k \<noteq> rk_version ex_rootKey))"
    by (simp add: ex_service_mixed_def ex_service_stale_def ex_freshKey_def ex_staleKey_def
        ex_rootKey_def neverSynced_def)
  have c': "map ik_deleted (allItemsKeys
              (setItemsToBeDeleted
                 (filter (\<lambda>k. neverSynced k \<and> ik_version k \<noteq> rk_version ex_rootKey)
                    (allItemsKeys ex_service_mixed)) ex_service_mixed)) = [False, True]"
    by (simp add: ex_service_mixed_def ex_service_stale_def ex_freshKey_def ex_staleKey_def
        ex_rootKey_def neverSynced_def setItemsToBeDeleted_def)
  have d: "rootKey ex_service_keyless = Some ex_rootKey \<and> allItemsKeys ex_service_keyless = []"
    by (simp add: ex_service_keyless_def ex_service_stale_def)
  have v: "rk_version ex_rootKey = ''004''"
    by (simp add: ex_rootKey_def)
  show ?thesis
    using a a' b c c' d v
      download_first_reconciliation [of ex_service_synced "''F''"]
      download_first_reconciliation [of ex_service_offline "''F''"]
      download_first_reconciliation [of ex_service_mixed "''F''"]
      download_first_reconciliation [of ex_service_keyless "''F''"]
    by simp
qed

text \<open>
  The case that the amended claim leaves open: one never-synced items key of version 003
  under a root key of version 004, and no synced default. The key is marked deleted and no
  new key is created, since the test for creation reads the list of items keys as it was
  before the deletion; the comment in the code says ``if we end up with 0 items keys, create
  a new one''.
\<close>

lemma download_first_leaves_no_items_key:
  "neverSynced ex_staleKey
   \<and> ik_version ex_staleKey \<noteq> rk_version ex_rootKey
   \<and> find (\<lambda>key. \<not> neverSynced key \<and> ik_isDefault key) (allItemsKeys ex_service_stale) = None
   \<and> allItemsKeys (handleDownloadFirstSyncCompletion freshUuid ex_service_stale)
       = [ex_staleKey\<lparr>ik_deleted := True, ik_dirty := True\<rparr>]
   \<and> filter (\<lambda>k. \<not> ik_deleted k)
        (allItemsKeys (handleDownloadFirstSyncCompletion freshUuid ex_service_stale)) = []"
  by (simp add: handleDownloadFirstSyncCompletion_def ex_service_stale_def ex_staleKey_def
      ex_rootKey_def neverSynced_def getRootKey_def setItemsToBeDeleted_def Let_def)

subsection \<open>Setting a new root key\<close>

lemma encrypt_with_key_any_state:
  "payloadByEncryptingPayload h s p i (Some k) = payloadByEncryptingPayload h s' p i (Some k)"
  by (cases i) (simp_all add: payloadByEncryptingPayload_def)

lemma reencryptItemsKeys_all_dirty:
  "allItemsKeys (reencryptItemsKeys s) = map (\<lambda>k. k\<lparr>ik_dirty := True\<rparr>) (allItemsKeys s)"
  by (simp add: reencryptItemsKeys_def setItemsDirty_def Let_def)

lemma reencryptItemsKeys_frame:
  "keyMode (reencryptItemsKeys s) = keyMode s"
  "rootKey (reencryptItemsKeys s) = rootKey s"
  "keychainValue (reencryptItemsKeys s) = keychainValue s"
  "nonwrappedStorage (reencryptItemsKeys s) = nonwrappedStorage s"
  "keyChangeNotifications (reencryptItemsKeys s) = keyChangeNotifications s"
  by (simp_all add: reencryptItemsKeys_def setItemsDirty_def Let_def)

lemma setNewRootKey_guards:
  "setNewRootKey h key None wrappingKey s = (Some KeyParamsMissing, s)"
  "rootKey s = Some key \<Longrightarrow> setNewRootKey h key (Some kp) wrappingKey s = (Some SameRootKey, s)"
  by (simp_all add: setNewRootKey_def)

lemma setNewRootKey_to_RootKeyOnly:
  assumes "rootKey s \<noteq> Some key" and "modeAfterNewRootKey (keyMode s) = RootKeyOnly"
  shows "setNewRootKey h key (Some kp) wrappingKey s =
           (None, reencryptItemsKeys (notifyObserversOfKeyChange
              (s\<lparr>keyMode := RootKeyOnly, rootKey := Some key,
                  nonwrappedStorage := (nonwrappedStorage s)(RootKeyParams \<mapsto> StoredKeyParams (kp_portable kp)),
                  keychainValue := Some (rk_persistable key)\<rparr>)))"
  using assms
  by (cases "keyMode s")
     (simp_all add: setNewRootKey_def modeAfterNewRootKey_def saveRootKeyToKeychain_def Let_def)

lemma setNewRootKey_wrapper_missing:
  assumes "rootKey s \<noteq> Some key" and "modeAfterNewRootKey (keyMode s) = RootKeyPlusWrapper"
  shows "setNewRootKey h key (Some kp) None s =
           (Some WrappingKeyMissing,
            s\<lparr>keyMode := RootKeyPlusWrapper, rootKey := Some key,
               nonwrappedStorage := (nonwrappedStorage s)(RootKeyParams \<mapsto> StoredKeyParams (kp_portable kp))\<rparr>)"
  using assms
  by (cases "keyMode s")
     (simp_all add: setNewRootKey_def modeAfterNewRootKey_def Let_def)

lemma setNewRootKey_wrapped:
  assumes "rootKey s \<noteq> Some key" and "modeAfterNewRootKey (keyMode s) = RootKeyPlusWrapper"
    and "payloadByEncryptingPayload h s
           (CreatePayload (mergeObjects h) (rk_fields key) MaxPayloadFields
              (Some [Content \<mapsto> JObj (rk_persistable key)]))
           (Some LocalStorageEncrypted) (Some (RootKey w)) = Inr wrapped"
  shows "setNewRootKey h key (Some kp) (Some w) s =
           (None, reencryptItemsKeys (notifyObserversOfKeyChange
              (s\<lparr>keyMode := RootKeyPlusWrapper, rootKey := Some key,
                  nonwrappedStorage := (nonwrappedStorage s)
                     (RootKeyParams \<mapsto> StoredKeyParams (kp_portable kp),
                      WrappedRootKey \<mapsto> StoredPayload wrapped)\<rparr>)))"
proof -
  define s3 where "s3 = s\<lparr>keyMode := RootKeyPlusWrapper, rootKey := Some key,
       nonwrappedStorage := (nonwrappedStorage s)(RootKeyParams \<mapsto> StoredKeyParams (kp_portable kp))\<rparr>"
  have enc: "payloadByEncryptingPayload h s3
           (CreatePayload (mergeObjects h) (rk_fields key) MaxPayloadFields
              (Some [Content \<mapsto> JObj (rk_persistable key)]))
           (Some LocalStorageEncrypted) (Some (RootKey w)) = Inr wrapped"
    using assms(3) encrypt_with_key_any_state [of h s3 _ _ _ s] by simp
  have w: "wrapAndPersistRootKey h w s3 =
      (None, s3\<lparr>nonwrappedStorage := (nonwrappedStorage s3)(WrappedRootKey \<mapsto> StoredPayload wrapped)\<rparr>)"
    using enc by (simp add: wrapAndPersistRootKey_def CreateMaxPayloadFromAnyObject_def s3_def)
  have "setNewRootKey h key (Some kp) (Some w) s =
      (case wrapAndPersistRootKey h w s3 of
         (Some e, s4) \<Rightarrow> (Some e, s4)
       | (None, s4) \<Rightarrow> (None, reencryptItemsKeys (notifyObserversOfKeyChange s4)))"
    using assms(1,2)
    by (cases "keyMode s")
       (simp_all add: setNewRootKey_def modeAfterNewRootKey_def Let_def s3_def split: prod.splits option.splits)
  also have "\<dots> = (None, reencryptItemsKeys (notifyObserversOfKeyChange
       (s3\<lparr>nonwrappedStorage := (nonwrappedStorage s3)(WrappedRootKey \<mapsto> StoredPayload wrapped)\<rparr>)))"
    by (simp add: w)
  finally show ?thesis
    by (simp add: s3_def)
qed

lemma modeAfterNewRootKey_cases:
  "modeAfterNewRootKey m = RootKeyOnly \<or> modeAfterNewRootKey m = RootKeyPlusWrapper"
  by (cases m) (simp_all add: modeAfterNewRootKey_def)

lemma wrapAndPersistRootKey_frame:
  "keyMode (snd (wrapAndPersistRootKey h w s)) = keyMode s"
  "rootKey (snd (wrapAndPersistRootKey h w s)) = rootKey s"
  "keychainValue (snd (wrapAndPersistRootKey h w s)) = keychainValue s"
  "allItemsKeys (snd (wrapAndPersistRootKey h w s)) = allItemsKeys s"
  "nonwrappedStorage (snd (wrapAndPersistRootKey h w s)) RootKeyParams
     = nonwrappedStorage s RootKeyParams"
  by (simp_all add: wrapAndPersistRootKey_def split: option.splits sum.splits)

lemma setNewRootKey_with_wrapper:
  assumes "rootKey s \<noteq> Some key" and "modeAfterNewRootKey (keyMode s) = RootKeyPlusWrapper"
  shows "keyMode (snd (setNewRootKey h key (Some kp) wk s)) = RootKeyPlusWrapper"
    and "rootKey (snd (setNewRootKey h key (Some kp) wk s)) = Some key"
    and "nonwrappedStorage (snd (setNewRootKey h key (Some kp) wk s)) RootKeyParams
           = Some (StoredKeyParams (kp_portable kp))"
proof -
  define s3 where "s3 = s\<lparr>keyMode := RootKeyPlusWrapper, rootKey := Some key,
       nonwrappedStorage := (nonwrappedStorage s)(RootKeyParams \<mapsto> StoredKeyParams (kp_portable kp))\<rparr>"
  have run: "setNewRootKey h key (Some kp) wk' s =
      (case (case wk' of None \<Rightarrow> (Some WrappingKeyMissing, s3)
                      | Some w \<Rightarrow> wrapAndPersistRootKey h w s3) of
         (Some e, s4) \<Rightarrow> (Some e, s4)
       | (None, s4) \<Rightarrow> (None, reencryptItemsKeys (notifyObserversOfKeyChange s4)))" for wk'
    using assms
    by (cases "keyMode s")
       (simp_all add: setNewRootKey_def modeAfterNewRootKey_def Let_def s3_def split: prod.splits option.splits)
  have s3: "keyMode s3 = RootKeyPlusWrapper" "rootKey s3 = Some key"
    "nonwrappedStorage s3 RootKeyParams = Some (StoredKeyParams (kp_portable kp))"
    by (simp_all add: s3_def)
  have res: "snd (setNewRootKey h key (Some kp) wk s) = s3
      \<or> (\<exists>w. snd (setNewRootKey h key (Some kp) wk s) = snd (wrapAndPersistRootKey h w s3))
      \<or> (\<exists>w. snd (setNewRootKey h key (Some kp) wk s)
             = reencryptItemsKeys (notifyObserversOfKeyChange (snd (wrapAndPersistRootKey h w s3))))"
  proof (cases wk)
    case None
    then show ?thesis by (simp add: run)
  next
    case (Some w)
    show ?thesis
    proof (cases "wrapAndPersistRootKey h w s3")
      case (Pair err s4)
      show ?thesis
      proof (cases err)
        case None
        with Pair have "snd (setNewRootKey h key (Some kp) (Some w) s)
             = reencryptItemsKeys (notifyObserversOfKeyChange (snd (wrapAndPersistRootKey h w s3)))"
          by (simp add: run)
        with Some show ?thesis by blast
      next
        case (Some e)
        with Pair have "snd (setNewRootKey h key (Some kp) (Some w) s)
             = snd (wrapAndPersistRootKey h w s3)"
          by (simp add: run)
        with \<open>wk = Some w\<close> show ?thesis by blast
      qed
    qed
  qed
  have frame: "keyMode (snd (wrapAndPersistRootKey h w s3)) = RootKeyPlusWrapper"
    "rootKey (snd (wrapAndPersistRootKey h w s3)) = Some key"
    "nonwrappedStorage (snd (wrapAndPersistRootKey h w s3)) RootKeyParams
       = Some (StoredKeyParams (kp_portable kp))" for w
    by (simp_all add: wrapAndPersistRootKey_frame s3)
  have notify: "keyMode (reencryptItemsKeys (notifyObserversOfKeyChange t)) = keyMode t"
    "rootKey (reencryptItemsKeys (notifyObserversOfKeyChange t)) = rootKey t"
    "nonwrappedStorage (reencryptItemsKeys (notifyObserversOfKeyChange t)) = nonwrappedStorage t" for t
    by (simp_all add: reencryptItemsKeys_frame notifyObserversOfKeyChange_def)
  show "keyMode (snd (setNewRootKey h key (Some kp) wk s)) = RootKeyPlusWrapper"
    using res s3(1) frame(1) notify(1) by metis
  show "rootKey (snd (setNewRootKey h key (Some kp) wk s)) = Some key"
    using res s3(2) frame(2) notify(2) by metis
  show "nonwrappedStorage (snd (setNewRootKey h key (Some kp) wk s)) RootKeyParams
           = Some (StoredKeyParams (kp_portable kp))"
    using res s3(3) frame(3) notify(3) by metis
qed

text \<open>
  C7. As stated the claim fails on two inputs. Called with the key that is the root key
  already, \<open>setNewRootKey\<close> throws at once: no key params are persisted and no items key is
  marked dirty. And when the encryption of the root key under the wrapping key throws, no
  wrapped root key is persisted and no items key is marked dirty.
\<close>

theorem setNewRootKey_counterexample:
  "setNewRootKey ex_host ex_rootKey (Some ex_keyParams) None ex_service_rooted
     = (Some SameRootKey, ex_service_rooted)
   \<and> nonwrappedStorage ex_service_rooted RootKeyParams = None
   \<and> map ik_dirty (allItemsKeys ex_service_rooted) = [False]
   \<and> fst (setNewRootKey ex_host_failing ex_rootKey (Some ex_keyParams) (Some ex_wrappingKey)
             ex_service_wrapper) = Some (OperatorFailure ''encryption failed'')
   \<and> nonwrappedStorage (snd (setNewRootKey ex_host_failing ex_rootKey (Some ex_keyParams)
                               (Some ex_wrappingKey) ex_service_wrapper)) WrappedRootKey = None
   \<and> map ik_dirty (allItemsKeys (snd (setNewRootKey ex_host_failing ex_rootKey (Some ex_keyParams)
                                        (Some ex_wrappingKey) ex_service_wrapper)))
       = [False, False]"
proof -
  have a: "setNewRootKey ex_host ex_rootKey (Some ex_keyParams) None ex_service_rooted
     = (Some SameRootKey, ex_service_rooted)"
    by (simp add: setNewRootKey_def ex_service_rooted_def)
  have b: "nonwrappedStorage ex_service_rooted RootKeyParams = None"
    "map ik_dirty (allItemsKeys ex_service_rooted) = [False]"
    by (simp_all add: ex_service_rooted_def ex_itemsKey_def)
  define s3 where "s3 = ex_service_wrapper\<lparr>keyMode := RootKeyPlusWrapper, rootKey := Some ex_rootKey,
       nonwrappedStorage := (nonwrappedStorage ex_service_wrapper)
          (RootKeyParams \<mapsto> StoredKeyParams (kp_portable ex_keyParams))\<rparr>"
  have f: "format (CreatePayload (mergeObjects ex_host_failing) (rk_fields ex_rootKey)
             MaxPayloadFields (Some [Content \<mapsto> JObj (rk_persistable ex_rootKey)]))
           = DecryptedBareObject"
    by (simp add: format_def CreatePayload_def pickByCopy_Max deepMerge_fresh_object
        ex_rootKey_def Let_def)
  have r: "raw (CreatePayload (mergeObjects ex_host_failing) (rk_fields ex_rootKey)
             MaxPayloadFields (Some [Content \<mapsto> JObj (rk_persistable ex_rootKey)]))
           = [Uuid \<mapsto> JStr ''R'', ContentType \<mapsto> JStr ContentType_RootKey,
              Content \<mapsto> JObj (rk_persistable ex_rootKey)]"
    by (simp add: CreatePayload_def pickByCopy_Max deepMerge_fresh_object ex_rootKey_def Let_def)
  have g: "generateEncryptedParameters ex_host_failing v p fmt k
             = Inl (OperatorFailure ''encryption failed'')" for v p fmt k
    by (simp add: ex_host_failing_def)
  have w: "wrapAndPersistRootKey ex_host_failing ex_wrappingKey s3
             = (Some (OperatorFailure ''encryption failed''), s3)"
    by (simp add: wrapAndPersistRootKey_def CreateMaxPayloadFromAnyObject_def
        payloadByEncryptingPayload_def f r g intentRequiresEncryption_def
        payloadContentFormatForIntent_def operatorForVersion_def createOperatorForVersion_def
        ex_wrappingKey_def V001_def V002_def V003_def V004_def Let_def s3_def)
  have "setNewRootKey ex_host_failing ex_rootKey (Some ex_keyParams) (Some ex_wrappingKey)
          ex_service_wrapper
        = (case wrapAndPersistRootKey ex_host_failing ex_wrappingKey s3 of
             (Some e, s4) \<Rightarrow> (Some e, s4)
           | (None, s4) \<Rightarrow> (None, reencryptItemsKeys (notifyObserversOfKeyChange s4)))"
    by (simp add: setNewRootKey_def Let_def s3_def ex_service_wrapper_def ex_rootKey_def
        ex_wrappingKey_def split: prod.splits option.splits)
  then have c: "setNewRootKey ex_host_failing ex_rootKey (Some ex_keyParams) (Some ex_wrappingKey)
          ex_service_wrapper = (Some (OperatorFailure ''encryption failed''), s3)"
    by (simp add: w)
  have d: "nonwrappedStorage s3 WrappedRootKey = None"
    "map ik_dirty (allItemsKeys s3) = [False, False]"
    by (simp_all add: s3_def ex_service_wrapper_def ex_itemsKey_def ex_staleKey_def)
  show ?thesis
    using a b d by (simp add: c)
qed

text \<open>
  C7, amended. \<open>setNewRootKey\<close>, given key params and a key that is not the root key held already,
  moves the key mode (\<open>RootKeyNone\<close> to \<open>RootKeyOnly\<close>, \<open>WrapperOnly\<close> to
  \<open>RootKeyPlusWrapper\<close>, the two root-key modes unchanged), stores the key and persists the key
  params. When the resulting mode has no wrapper it succeeds whatever the wrapping key
  argument, writes the plain key to the keychain and marks every items key dirty. When the
  resulting mode has a wrapper, it throws without a wrapping key, and with one (and the
  wrapping succeeding) persists the wrapped root key, leaves the keychain alone and marks
  every items key dirty.
\<close>

theorem setNewRootKey_sets_root_key:
  assumes new: "rootKey s \<noteq> Some key"
  shows
    "modeAfterNewRootKey RootKeyNone = RootKeyOnly
     \<and> modeAfterNewRootKey WrapperOnly = RootKeyPlusWrapper
     \<and> modeAfterNewRootKey RootKeyOnly = RootKeyOnly
     \<and> modeAfterNewRootKey RootKeyPlusWrapper = RootKeyPlusWrapper
     \<and> keyMode (snd (setNewRootKey h key (Some kp) wk s)) = modeAfterNewRootKey (keyMode s)
     \<and> rootKey (snd (setNewRootKey h key (Some kp) wk s)) = Some key
     \<and> nonwrappedStorage (snd (setNewRootKey h key (Some kp) wk s)) RootKeyParams
         = Some (StoredKeyParams (kp_portable kp))
     \<and> (modeAfterNewRootKey (keyMode s) = RootKeyOnly \<longrightarrow>
          fst (setNewRootKey h key (Some kp) wk s) = None
        \<and> keychainValue (snd (setNewRootKey h key (Some kp) wk s)) = Some (rk_persistable key)
        \<and> nonwrappedStorage (snd (setNewRootKey h key (Some kp) wk s)) WrappedRootKey
            = nonwrappedStorage s WrappedRootKey
        \<and> allItemsKeys (snd (setNewRootKey h key (Some kp) wk s))
            = map (\<lambda>k. k\<lparr>ik_dirty := True\<rparr>) (allItemsKeys s))
     \<and> (modeAfterNewRootKey (keyMode s) = RootKeyPlusWrapper \<and> wk = None \<longrightarrow>
          fst (setNewRootKey h key (Some kp) wk s) = Some WrappingKeyMissing)
     \<and> (\<forall>w wrapped.
          modeAfterNewRootKey (keyMode s) = RootKeyPlusWrapper \<and> wk = Some w
          \<and> payloadByEncryptingPayload h s
               (CreatePayload (mergeObjects h) (rk_fields key) MaxPayloadFields
                  (Some [Content \<mapsto> JObj (rk_persistable key)]))
               (Some LocalStorageEncrypted) (Some (RootKey w)) = Inr wrapped
          \<longrightarrow> fst (setNewRootKey h key (Some kp) wk s) = None
            \<and> nonwrappedStorage (snd (setNewRootKey h key (Some kp) wk s)) WrappedRootKey
                = Some (StoredPayload wrapped)
            \<and> keychainValue (snd (setNewRootKey h key (Some kp) wk s)) = keychainValue s
            \<and> allItemsKeys (snd (setNewRootKey h key (Some kp) wk s))
                = map (\<lambda>k. k\<lparr>ik_dirty := True\<rparr>) (allItemsKeys s))"
proof -
  have table: "modeAfterNewRootKey RootKeyNone = RootKeyOnly"
    "modeAfterNewRootKey WrapperOnly = RootKeyPlusWrapper"
    "modeAfterNewRootKey RootKeyOnly = RootKeyOnly"
    "modeAfterNewRootKey RootKeyPlusWrapper = RootKeyPlusWrapper"
    by (simp_all add: modeAfterNewRootKey_def)
  have only: "fst (setNewRootKey h key (Some kp) wk s) = None
        \<and> keyMode (snd (setNewRootKey h key (Some kp) wk s)) = RootKeyOnly
        \<and> rootKey (snd (setNewRootKey h key (Some kp) wk s)) = Some key
        \<and> nonwrappedStorage (snd (setNewRootKey h key (Some kp) wk s)) RootKeyParams
            = Some (StoredKeyParams (kp_portable kp))
        \<and> keychainValue (snd (setNewRootKey h key (Some kp) wk s)) = Some (rk_persistable key)
        \<and> nonwrappedStorage (snd (setNewRootKey h key (Some kp) wk s)) WrappedRootKey
            = nonwrappedStorage s WrappedRootKey
        \<and> allItemsKeys (snd (setNewRootKey h key (Some kp) wk s))
            = map (\<lambda>k. k\<lparr>ik_dirty := True\<rparr>) (allItemsKeys s)"
    if "modeAfterNewRootKey (keyMode s) = RootKeyOnly"
    using setNewRootKey_to_RootKeyOnly [OF new that, of h kp wk]
    by (simp add: reencryptItemsKeys_frame reencryptItemsKeys_all_dirty notifyObserversOfKeyChange_def)
  have missing: "fst (setNewRootKey h key (Some kp) wk s) = Some WrappingKeyMissing"
    if "modeAfterNewRootKey (keyMode s) = RootKeyPlusWrapper" and "wk = None"
    using setNewRootKey_wrapper_missing [OF new that(1), of h kp] that(2) by simp
  have wrapped: "fst (setNewRootKey h key (Some kp) wk s) = None
            \<and> nonwrappedStorage (snd (setNewRootKey h key (Some kp) wk s)) WrappedRootKey
                = Some (StoredPayload wrapped)
            \<and> keychainValue (snd (setNewRootKey h key (Some kp) wk s)) = keychainValue s
            \<and> allItemsKeys (snd (setNewRootKey h key (Some kp) wk s))
                = map (\<lambda>k. k\<lparr>ik_dirty := True\<rparr>) (allItemsKeys s)"
    if "modeAfterNewRootKey (keyMode s) = RootKeyPlusWrapper" and "wk = Some w"
      and "payloadByEncryptingPayload h s
               (CreatePayload (mergeObjects h) (rk_fields key) MaxPayloadFields
                  (Some [Content \<mapsto> JObj (rk_persistable key)]))
               (Some LocalStorageEncrypted) (Some (RootKey w)) = Inr wrapped"
    for w wrapped
    using setNewRootKey_wrapped [OF new that(1) that(3), of kp] that(2)
    by (simp add: reencryptItemsKeys_frame reencryptItemsKeys_all_dirty notifyObserversOfKeyChange_def)
  have common: "keyMode (snd (setNewRootKey h key (Some kp) wk s)) = modeAfterNewRootKey (keyMode s)
     \<and> rootKey (snd (setNewRootKey h key (Some kp) wk s)) = Some key
     \<and> nonwrappedStorage (snd (setNewRootKey h key (Some kp) wk s)) RootKeyParams
         = Some (StoredKeyParams (kp_portable kp))"
  proof (cases "modeAfterNewRootKey (keyMode s) = RootKeyOnly")
    case True
    with only show ?thesis by simp
  next
    case False
    then have m: "modeAfterNewRootKey (keyMode s) = RootKeyPlusWrapper"
      using modeAfterNewRootKey_cases by blast
    show ?thesis
      using setNewRootKey_with_wrapper [OF new m, of h kp wk] m by simp
  qed
  show ?thesis
  proof (intro conjI impI allI)
    fix w wrapped
    assume a: "modeAfterNewRootKey (keyMode s) = RootKeyPlusWrapper \<and> wk = Some w
          \<and> payloadByEncryptingPayload h s
               (CreatePayload (mergeObjects h) (rk_fields key) MaxPayloadFields
                  (Some [Content \<mapsto> JObj (rk_persistable key)]))
               (Some LocalStorageEncrypted) (Some (RootKey w)) = Inr wrapped"
    from a have a1: "modeAfterNewRootKey (keyMode s) = RootKeyPlusWrapper"
      and a2: "wk = Some w"
      and a3: "payloadByEncryptingPayload h s
               (CreatePayload (mergeObjects h) (rk_fields key) MaxPayloadFields
                  (Some [Content \<mapsto> JObj (rk_persistable key)]))
               (Some LocalStorageEncrypted) (Some (RootKey w)) = Inr wrapped"
      by simp_all
    note r = wrapped [OF a1 a2 a3]
    show "fst (setNewRootKey h key (Some kp) wk s) = None"
      using r by simp
    show "nonwrappedStorage (snd (setNewRootKey h key (Some kp) wk s)) WrappedRootKey
                = Some (StoredPayload wrapped)"
      using r by simp
    show "keychainValue (snd (setNewRootKey h key (Some kp) wk s)) = keychainValue s"
      using r by simp
    show "allItemsKeys (snd (setNewRootKey h key (Some kp) wk s))
                = map (\<lambda>k. k\<lparr>ik_dirty := True\<rparr>) (allItemsKeys s)"
      using r by simp
  qed (use table common only missing in simp_all)
qed

lemma ex_wrapping_succeeds:
  "payloadByEncryptingPayload ex_host ex_service_wrapper
     (CreatePayload (mergeObjects ex_host) (rk_fields ex_rootKey) MaxPayloadFields
        (Some [Content \<mapsto> JObj (rk_persistable ex_rootKey)]))
     (Some LocalStorageEncrypted) (Some (RootKey ex_wrappingKey)) = Inr ex_wrappedRootKey"
proof -
  define payload where "payload = CreatePayload (mergeObjects ex_host) (rk_fields ex_rootKey)
      MaxPayloadFields (Some [Content \<mapsto> JObj (rk_persistable ex_rootKey)])"
  have r: "raw payload = [Uuid \<mapsto> JStr ''R'', ContentType \<mapsto> JStr ContentType_RootKey,
                         Content \<mapsto> JObj (rk_persistable ex_rootKey)]"
    by (simp add: payload_def CreatePayload_def pickByCopy_Max deepMerge_fresh_object
          ex_rootKey_def Let_def)
  have f: "format payload = DecryptedBareObject"
    by (simp add: format_def r)
  have c: "CreateIntentPayloadFromObject (mergeObjects ex_host) (raw payload) LocalStorageEncrypted
             (Some [Content \<mapsto> JStr ''004:sealed'']) = Inr ex_wrappedRootKey"
  proof -
    have "raw (CreatePayload (mergeObjects ex_host) (raw payload) StoragePayloadFields
                 (Some [Content \<mapsto> JStr ''004:sealed'']))
            = raw ex_wrappedRootKey"
      by (rule ext)
         (simp add: CreatePayload_def pickByCopy_def deepMerge_string r StoragePayloadFields_def
            ex_wrappedRootKey_def Let_def)
    moreover have "fieldList (CreatePayload (mergeObjects ex_host) (raw payload)
                 StoragePayloadFields (Some [Content \<mapsto> JStr ''004:sealed'']))
            = fieldList ex_wrappedRootKey"
      by (simp add: CreatePayload_def ex_wrappedRootKey_def Let_def)
    ultimately have "CreatePayload (mergeObjects ex_host) (raw payload) StoragePayloadFields
                 (Some [Content \<mapsto> JStr ''004:sealed'']) = ex_wrappedRootKey"
      by simp
    then show ?thesis
      by (simp add: CreateIntentPayloadFromObject_def payloadFieldsForIntent_def)
  qed
  have g: "generateEncryptedParameters ex_host ''004'' payload EncryptedString
             (Some (RootKey ex_wrappingKey)) = Inr (Some [Content \<mapsto> JStr ''004:sealed''])"
    by (simp add: ex_host_def)
  have v: "rk_version ex_wrappingKey = ''004''"
    by (simp add: ex_wrappingKey_def)
  have "payloadByEncryptingPayload ex_host ex_service_wrapper payload
     (Some LocalStorageEncrypted) (Some (RootKey ex_wrappingKey)) = Inr ex_wrappedRootKey"
    by (simp add: payloadByEncryptingPayload_def f r c [unfolded r] g v intentRequiresEncryption_def
        payloadContentFormatForIntent_def operatorForVersion_def createOperatorForVersion_def
        V001_def V002_def V003_def V004_def Let_def)
  then show ?thesis
    by (simp add: payload_def)
qed

theorem setNewRootKey_sets_root_key_witness:
  "rootKey ex_service_wrapper \<noteq> Some ex_rootKey
   \<and> fst (setNewRootKey ex_host ex_rootKey (Some ex_keyParams) (Some ex_wrappingKey) ex_service_wrapper)
       = None
   \<and> keyMode (snd (setNewRootKey ex_host ex_rootKey (Some ex_keyParams) (Some ex_wrappingKey)
                     ex_service_wrapper)) = RootKeyPlusWrapper
   \<and> nonwrappedStorage (snd (setNewRootKey ex_host ex_rootKey (Some ex_keyParams)
                               (Some ex_wrappingKey) ex_service_wrapper)) WrappedRootKey
       = Some (StoredPayload ex_wrappedRootKey)
   \<and> map ik_dirty (allItemsKeys (snd (setNewRootKey ex_host ex_rootKey (Some ex_keyParams)
                                        (Some ex_wrappingKey) ex_service_wrapper)))
       = [True, True]
   \<and> fst (setNewRootKey ex_host ex_rootKey (Some ex_keyParams) None ex_service_wrapper)
       = Some WrappingKeyMissing
   \<and> rootKey ex_service \<noteq> Some ex_rootKey
   \<and> fst (setNewRootKey ex_host ex_rootKey (Some ex_keyParams) None ex_service) = None
   \<and> keyMode (snd (setNewRootKey ex_host ex_rootKey (Some ex_keyParams) None ex_service))
       = RootKeyOnly
   \<and> keychainValue (snd (setNewRootKey ex_host ex_rootKey (Some ex_keyParams) None ex_service))
       = Some (rk_persistable ex_rootKey)"
proof -
  have n1: "rootKey ex_service_wrapper \<noteq> Some ex_rootKey"
    by (simp add: ex_service_wrapper_def ex_rootKey_def ex_wrappingKey_def)
  have m1: "modeAfterNewRootKey (keyMode ex_service_wrapper) = RootKeyPlusWrapper"
    by (simp add: ex_service_wrapper_def modeAfterNewRootKey_def)
  have k1: "map ik_dirty (map (\<lambda>k. k\<lparr>ik_dirty := True\<rparr>) (allItemsKeys ex_service_wrapper))
              = [True, True]"
    by (simp add: ex_service_wrapper_def)
  have n2: "rootKey ex_service \<noteq> Some ex_rootKey"
    by (simp add: ex_service_def)
  have m2: "modeAfterNewRootKey (keyMode ex_service) = RootKeyOnly"
    by (simp add: ex_service_def modeAfterNewRootKey_def)
  show ?thesis
    using n1 n2 m1 m2 k1 ex_wrapping_succeeds
      setNewRootKey_sets_root_key [OF n1, of ex_host ex_keyParams "Some ex_wrappingKey"]
      setNewRootKey_sets_root_key [OF n1, of ex_host ex_keyParams None]
      setNewRootKey_sets_root_key [OF n2, of ex_host ex_keyParams None]
    by simp
qed

section \<open>Properties of protocol operator 001\<close>

text \<open>
  C9. The claim: without an IV, a 16-byte all-zero IV is substituted and the operation goes
  on. The code passes to AES whatever \<open>hexStringToArrayBuffer\<close> returns for the empty string
  (here an empty buffer), and when that is nothing the substitution throws, being an
  assignment to a constant. A zero IV reaches AES only if \<open>hexStringToArrayBuffer\<close> itself
  returns it for the empty string.
\<close>

theorem zero_iv_not_substituted:
  "decryptText (\<lambda>hex. Some []) ct k None = Inr (Aes256CbcDecrypt ct (Some []) [])
   \<and> decryptText (\<lambda>hex. Some []) ct k (Some []) = Inr (Aes256CbcDecrypt ct (Some []) [])
   \<and> decryptText (\<lambda>hex. None) ct k None = Inl AssignmentToConstant
   \<and> encryptText (\<lambda>hex. Some []) ct k None = Inr (Aes256CbcEncrypt ct (Some []) [])
   \<and> encryptText (\<lambda>hex. None) ct k None = Inl AssignmentToConstant
   \<and> (hexStringToArrayBuffer [] = Some zeroIv
      \<or> decryptText hexStringToArrayBuffer ct k None
           \<noteq> Inr (Aes256CbcDecrypt ct (hexStringToArrayBuffer k) zeroIv))
   \<and> (hexStringToArrayBuffer [] = Some zeroIv
      \<or> encryptText hexStringToArrayBuffer ct k None
           \<noteq> Inr (Aes256CbcEncrypt ct (hexStringToArrayBuffer k) zeroIv))"
  by (auto simp: decryptText_def encryptText_def zeroIv_def split: option.splits)

end
